theory Spec2Isabelle
  imports Main "HOL-Library.Word"
begin

unbundle bit_operations_syntax

section \<open>The allocator and collection trigger of pkg/runtime/malloc.go\<close>

text \<open>
  The development follows \<^verbatim>\<open>src/pkg/runtime/malloc.go\<close>: \<^verbatim>\<open>gomallocgc\<close> with its tiny,
  size-class and large paths, the bitmap writer between the allocation and the label
  \<^verbatim>\<open>marked\<close>, \<^verbatim>\<open>profilealloc\<close>, \<^verbatim>\<open>goroundupsize\<close> and \<^verbatim>\<open>gogc\<close>.
  State is passed explicitly. The calls the file makes into the rest of the runtime are
  recorded in a trace, in the order the code makes them.
\<close>

subsection \<open>Constants\<close>

definition debugMalloc :: bool where "debugMalloc = False"
definition flagNoScan :: nat where "flagNoScan = 1"
definition flagNoZero :: nat where "flagNoZero = 2"
definition kindGCProg :: nat where "kindGCProg = 64"
definition maxTinySize :: nat where "maxTinySize = 16"
definition tinySizeClass :: nat where "tinySizeClass = 2"
definition maxSmallSize :: nat where "maxSmallSize = 32768"
definition pageShift :: nat where "pageShift = 13"
definition pageSize :: nat where "pageSize = 8192"
definition pageMask :: nat where "pageMask = 8191"
definition gcBits :: nat where "gcBits = 4"
definition pointersPerByte :: nat where "pointersPerByte = 4"
definition bitPtrMask :: nat where "bitPtrMask = 12"
definition maxGCMask :: nat where "maxGCMask = 0"
definition bitsDead :: nat where "bitsDead = 0"
definition bitsPointer :: nat where "bitsPointer = 2"
definition bitBoundary :: nat where "bitBoundary = 1"
definition bitMarked :: nat where "bitMarked = 2"
definition bitMask :: nat where "bitMask = 3"

subsection \<open>State\<close>

text \<open>The fields of the calling thread's \<^verbatim>\<open>m\<close> that the file reads or writes.\<close>

record m_t =
  mallocing :: int
  gcing :: int
  locks :: int
  scalararg :: "nat \<Rightarrow> nat"
  ptrarg :: "nat \<Rightarrow> nat"

text \<open>
  A span (\<^verbatim>\<open>mspan\<close>) and the per-thread cache (\<^verbatim>\<open>mcache\<close>). Pointers are addresses,
  \<open>0\<close> is \<^verbatim>\<open>nil\<close>. \<^verbatim>\<open>c.alloc[k]\<close> is the address of a span; the spans themselves live in
  the span store of the world, so that two classes sharing one span see each other's
  updates.
\<close>

record mspan =
  freelist :: nat
  ref :: nat
  start :: nat
  elemsize :: nat

record mcache_t =
  tiny :: nat
  tinysize :: nat
  alloc :: "nat \<Rightarrow> nat"
  local_cachealloc :: int
  next_sample :: int

text \<open>
  The process-wide state: \<^verbatim>\<open>memstats.enablegc\<close>, \<^verbatim>\<open>memstats.heap_alloc\<close>,
  \<^verbatim>\<open>memstats.next_gc\<close>, \<^verbatim>\<open>panicking\<close>, \<^verbatim>\<open>gcpercent\<close>, \<^verbatim>\<open>debug.gctrace\<close>, the semaphore
  \<^verbatim>\<open>worldsema\<close>, \<^verbatim>\<open>debug.allocfreetrace\<close>, \<^verbatim>\<open>MemProfileRate\<close>, \<^verbatim>\<open>mheap_.arena_start\<close>,
  the memory (one byte per address), the span store and the cache \<^verbatim>\<open>mp.mcache\<close> of the
  calling thread.
\<close>

record world =
  enablegc :: nat
  heap_alloc :: nat
  next_gc :: nat
  panicking :: nat
  gcpercent :: int
  gctrace :: int
  worldsema :: nat
  allocfreetrace :: int
  MemProfileRate :: int
  arena_start :: nat
  mem :: "nat \<Rightarrow> nat"
  spans :: "nat \<Rightarrow> mspan"
  mcache :: mcache_t

text \<open>
  A type descriptor (\<^verbatim>\<open>_type\<close>): its address, \<^verbatim>\<open>typ.size\<close>, \<^verbatim>\<open>typ.kind\<close> and the address
  of the array \<^verbatim>\<open>typ.gc\<close>, whose words and bytes are read from memory.
\<close>

record type_t =
  typ_addr :: nat
  tsize :: nat
  kind :: nat
  gc_at :: nat

text \<open>The calls out of the file and the stores into the GC bitmap, as they appear in a trace.\<close>

datatype event =
    Golock
  | Goreadgogc
  | Gounlock
  | Semacquire
  | Semrelease
  | Stoptheworld
  | Clearpools
  | OnM_gc nat nat
  | Starttheworld
  | Gosched
  | OnM_mcacheRefill nat
  | OnM_largeAlloc nat nat
  | Memclr nat nat
  | OnM_unrollgcproginplace nat nat nat nat
  | OnM_unrollgcprog nat
  | Bitmap_store nat
  | Racemalloc nat nat
  | Tracealloc nat nat nat
  | OnM_mprofMalloc nat nat

text \<open>How a call can fail to return a value: \<^verbatim>\<open>gothrow\<close>, a fault (a nil dereference, an
  index out of range, a division by zero), or a call or loop that does not return.\<close>

datatype failure = Throw string | Fault | NoReturn

text \<open>
  What the file uses and does not declare: constants (\<^verbatim>\<open>ptrSize\<close>, \<^verbatim>\<open>gcpercentUnknown\<close>,
  \<^verbatim>\<open>concurrentSweep\<close>, \<^verbatim>\<open>raceenabled\<close>), the address of \<^verbatim>\<open>zeroObject\<close>, the size-class
  tables and functions of the rest of the runtime. They are parameters of the model.
  \<^item> \<^verbatim>\<open>acquirem\<close> and \<^verbatim>\<open>releasem\<close> act on \<^verbatim>\<open>m.locks\<close>.
  \<^item> \<^verbatim>\<open>semacquire\<close> yields \<open>None\<close> in a state where it does not return.
  \<^item> \<^verbatim>\<open>stoptheworld\<close>, \<^verbatim>\<open>clearpools\<close>, \<^verbatim>\<open>starttheworld\<close>, \<^verbatim>\<open>gosched\<close>, \<^verbatim>\<open>racemalloc\<close>,
    \<^verbatim>\<open>tracealloc\<close> and \<^verbatim>\<open>mprofMalloc_m\<close> act on state that \<^typ>\<open>world\<close> does not carry
    (the scheduler, pools, the race detector, the trace and profile sinks): they appear
    in the trace only.
  \<^item> The functions run by \<^verbatim>\<open>onM\<close> receive what the code stores in \<^verbatim>\<open>mp.scalararg\<close> and
    \<^verbatim>\<open>mp.ptrarg\<close> for them; \<^verbatim>\<open>largeAlloc_m\<close> yields the span it leaves in
    \<^verbatim>\<open>mp.ptrarg[0]\<close>.
\<close>

record ext =
  ptrSize :: nat
  gcpercentUnknown :: int
  concurrentSweep :: bool
  raceenabled :: bool
  zeroObject :: nat
  size_to_class8 :: "nat list"
  size_to_class128 :: "nat list"
  class_to_size :: "nat list"
  acquirem_locks :: "int \<Rightarrow> int"
  releasem_locks :: "int \<Rightarrow> int"
  goreadgogc :: int
  gonanotime :: "world \<Rightarrow> int"
  fastrand2 :: "world \<Rightarrow> nat"
  semacquire :: "world \<Rightarrow> world option"
  semrelease :: "world \<Rightarrow> world"
  gc_m :: "nat \<Rightarrow> nat \<Rightarrow> world \<Rightarrow> world"
  mcacheRefill_m :: "nat \<Rightarrow> world \<Rightarrow> world"
  largeAlloc_m :: "nat \<Rightarrow> nat \<Rightarrow> world \<Rightarrow> nat \<times> world"
  unrollgcproginplace_m :: "nat \<Rightarrow> nat \<Rightarrow> nat \<Rightarrow> nat \<Rightarrow> world \<Rightarrow> world"
  unrollgcprog_m :: "nat \<Rightarrow> world \<Rightarrow> world"

definition acquirem :: "ext \<Rightarrow> m_t \<Rightarrow> m_t" where
  "acquirem e mp = mp\<lparr>locks := acquirem_locks e (locks mp)\<rparr>"

definition releasem :: "ext \<Rightarrow> m_t \<Rightarrow> m_t" where
  "releasem e mp = mp\<lparr>locks := releasem_locks e (locks mp)\<rparr>"

subsection \<open>Machine arithmetic and memory\<close>

text \<open>
  \<^verbatim>\<open>uintptr\<close> values are natural numbers below \<open>2 ^ (8 * ptrSize)\<close>. Subtraction wraps
  around, as does the conversion of a signed value; sums and products of addresses and
  sizes are taken in \<^typ>\<open>nat\<close>. \<^verbatim>\<open>int32(x)\<close> keeps the low 32 bits, read as two's complement.
  The remainder \<^verbatim>\<open>%\<close> of Go truncates towards zero.
\<close>

definition uptr :: "ext \<Rightarrow> int \<Rightarrow> nat" where
  "uptr e x = nat (x mod 2 ^ (8 * ptrSize e))"

definition usub :: "ext \<Rightarrow> nat \<Rightarrow> nat \<Rightarrow> nat" where
  "usub e a b = uptr e (int a - int b)"

definition int32 :: "int \<Rightarrow> int" where
  "int32 x = signed_take_bit 31 x"

definition go_rem :: "int \<Rightarrow> int \<Rightarrow> int" where
  "go_rem a b = sgn a * (\<bar>a\<bar> mod \<bar>b\<bar>)"

text \<open>Memory holds one byte per address; words are stored least significant byte first.\<close>

fun load_le :: "(nat \<Rightarrow> nat) \<Rightarrow> nat \<Rightarrow> nat \<Rightarrow> nat" where
  "load_le m a 0 = 0"
| "load_le m a (Suc k) = m a mod 256 + 256 * load_le m (Suc a) k"

fun store_le :: "(nat \<Rightarrow> nat) \<Rightarrow> nat \<Rightarrow> nat \<Rightarrow> nat \<Rightarrow> (nat \<Rightarrow> nat)" where
  "store_le m a 0 v = m"
| "store_le m a (Suc k) v = store_le (m(a := v mod 256)) (Suc a) k (v div 256)"

definition load_uintptr :: "ext \<Rightarrow> (nat \<Rightarrow> nat) \<Rightarrow> nat \<Rightarrow> nat" where
  "load_uintptr e m a = load_le m a (ptrSize e)"

definition store_uintptr :: "ext \<Rightarrow> (nat \<Rightarrow> nat) \<Rightarrow> nat \<Rightarrow> nat \<Rightarrow> (nat \<Rightarrow> nat)" where
  "store_uintptr e m a v = store_le m a (ptrSize e) v"

definition load_byte :: "(nat \<Rightarrow> nat) \<Rightarrow> nat \<Rightarrow> nat" where
  "load_byte m a = m a mod 256"

definition store_byte :: "(nat \<Rightarrow> nat) \<Rightarrow> nat \<Rightarrow> nat \<Rightarrow> (nat \<Rightarrow> nat)" where
  "store_byte m a v = m(a := v mod 256)"

text \<open>\<^verbatim>\<open>memclr(p, n)\<close> clears the \<open>n\<close> bytes at \<open>p\<close>.\<close>

definition memclr :: "(nat \<Rightarrow> nat) \<Rightarrow> nat \<Rightarrow> nat \<Rightarrow> (nat \<Rightarrow> nat)" where
  "memclr m p n = (\<lambda>a. if p \<le> a \<and> a < p + n then 0 else m a)"

text \<open>
  Modelled from the spec: \<^verbatim>\<open>roundup\<close> and \<^verbatim>\<open>add\<close> are helpers declared outside the file;
  the spec has the tiny allocator "align the cursor up to the request's natural
  alignment" and "advance the cursor".
\<close>

definition roundup :: "nat \<Rightarrow> nat \<Rightarrow> nat" where
  "roundup p n = ((p + n - 1) div n) * n"

definition add_ptr :: "nat \<Rightarrow> nat \<Rightarrow> nat" where
  "add_ptr p x = p + x"

text \<open>An indexed read of a table: a fault when the index is out of range.\<close>

definition idx :: "nat list \<Rightarrow> nat \<Rightarrow> failure + nat" where
  "idx xs i = (if i < length xs then Inr (xs ! i) else Inl Fault)"

subsection \<open>gogc\<close>

text \<open>
  Lines 404 to 410: the first caller to find \<^verbatim>\<open>gcpercent\<close> unknown reads it under
  \<^verbatim>\<open>mheap_.lock\<close>, testing it again once the lock is held.
\<close>

definition resolve_gcpercent :: "ext \<Rightarrow> event list \<times> world \<Rightarrow> event list \<times> world" where
  "resolve_gcpercent e s =
     (case s of (tr, w) \<Rightarrow>
        if gcpercent w = gcpercentUnknown e then
          (if gcpercent w = gcpercentUnknown e
           then (tr @ [Golock, Goreadgogc, Gounlock], w\<lparr>gcpercent := goreadgogc e\<rparr>)
           else (tr @ [Golock, Gounlock], w))
        else (tr, w))"

text \<open>
  Lines 441 to 453: the loop \<^verbatim>\<open>for i := 0; i < n; i++\<close>, with \<open>k\<close> the number of rounds
  left (\<open>n - i\<close>).
\<close>

fun gc_rounds ::
  "ext \<Rightarrow> int \<Rightarrow> nat \<Rightarrow> nat \<Rightarrow> int \<Rightarrow> event list \<times> m_t \<times> world \<Rightarrow> event list \<times> m_t \<times> world"
where
  "gc_rounds e force i 0 startTime s = s"
| "gc_rounds e force i (Suc k) startTime (tr, mp, w) =
     (let startTime' = (if i > 0 then gonanotime e w else startTime);
          mp1 = mp\<lparr>scalararg := (scalararg mp)(0 := uptr e startTime')\<rparr>;
          mp2 = (if force \<ge> 2 then mp1\<lparr>scalararg := (scalararg mp1)(1 := 1)\<rparr>
                 else mp1\<lparr>scalararg := (scalararg mp1)(1 := 0)\<rparr>);
          w' = gc_m e (scalararg mp2 0) (scalararg mp2 1) w
      in gc_rounds e force (i + 1) k startTime'
           (tr @ [OnM_gc (scalararg mp2 0) (scalararg mp2 1)], mp2, w'))"

text \<open>Lines 417 to 466: what \<^verbatim>\<open>gogc\<close> does once \<^verbatim>\<open>semacquire\<close> has returned.\<close>

definition gogc_gate ::
  "ext \<Rightarrow> int \<Rightarrow> event list \<times> m_t \<times> world \<Rightarrow> event list \<times> m_t \<times> world"
where
  "gogc_gate e force s =
     (case s of (tr, mp, w) \<Rightarrow>
        if force = 0 \<and> heap_alloc w < next_gc w then
          (tr @ [Semrelease], mp, semrelease e w)
        else
          let startTime = gonanotime e w;
              mp1 = (acquirem e mp)\<lparr>gcing := 1\<rparr>;
              tr1 = tr @ [Stoptheworld, Clearpools];
              n = (if gctrace w > 1 then 2 else 1)
          in case gc_rounds e force 0 n startTime (tr1, mp1, w) of
               (tr2, mp2, w2) \<Rightarrow>
                 let mp3 = mp2\<lparr>gcing := 0\<rparr>;
                     w3 = semrelease e w2;
                     tr3 = tr2 @ [Semrelease, Starttheworld];
                     mp4 = releasem e mp3
                 in (if \<not> concurrentSweep e then (tr3 @ [Gosched], mp4, w3)
                     else (tr3, mp4, w3)))"

text \<open>
  Lines 388 to 415: the checks before the semaphore. The result is \<open>Inl\<close> when \<^verbatim>\<open>gogc\<close>
  returns from one of them, \<open>Inr\<close> when it goes on to \<^verbatim>\<open>semacquire\<close>.
\<close>

definition gogc_entry ::
  "ext \<Rightarrow> m_t \<times> world \<Rightarrow> (event list \<times> m_t \<times> world) + (event list \<times> m_t \<times> world)"
where
  "gogc_entry e s =
     (case s of (mp0, w) \<Rightarrow>
        if enablegc w = 0 then Inl ([], mp0, w)
        else
          let mp = acquirem e mp0 in
          if locks mp > 1 then Inl ([], releasem e mp, w)
          else
            let mp' = releasem e mp in
            if panicking w \<noteq> 0 then Inl ([], mp', w)
            else
              case resolve_gcpercent e ([], w) of
                (tr, w') \<Rightarrow>
                  if gcpercent w' < 0 then Inl (tr, mp', w')
                  else Inr (tr, mp', w'))"

text \<open>
  \<^verbatim>\<open>gogc(force)\<close>: the trace of its calls and the state it leaves, or \<open>None\<close> when
  \<^verbatim>\<open>semacquire\<close> does not return.
\<close>

definition gogc :: "ext \<Rightarrow> int \<Rightarrow> m_t \<times> world \<Rightarrow> (event list \<times> m_t \<times> world) option" where
  "gogc e force s =
     (case gogc_entry e s of
        Inl r \<Rightarrow> Some r
      | Inr (tr, mp, w) \<Rightarrow>
          (case semacquire e w of
             None \<Rightarrow> None
           | Some w' \<Rightarrow> Some (gogc_gate e force (tr @ [Semacquire], mp, w'))))"

text \<open>\<^verbatim>\<open>GC()\<close> is \<^verbatim>\<open>gogc(2)\<close>.\<close>

definition GC :: "ext \<Rightarrow> m_t \<times> world \<Rightarrow> (event list \<times> m_t \<times> world) option" where
  "GC e s = gogc e 2 s"


subsection \<open>gomallocgc\<close>

text \<open>
  The state threaded through \<^verbatim>\<open>gomallocgc\<close>: the trace, the \<^verbatim>\<open>m\<close> of the calling thread
  and the world. Every entry of the trace carries the value \<^verbatim>\<open>mp.mallocing\<close> had when the
  entry was made.
\<close>

type_synonym state = "(int \<times> event) list \<times> m_t \<times> world"

definition emit :: "event \<Rightarrow> state \<Rightarrow> state" where
  "emit ev s = (case s of (tr, mp, w) \<Rightarrow> (tr @ [(mallocing mp, ev)], mp, w))"

text \<open>\<^verbatim>\<open>a &^ b\<close>: the bits of \<open>a\<close> that are not in \<open>b\<close>.\<close>

definition and_not :: "nat \<Rightarrow> nat \<Rightarrow> nat" where
  "and_not a b = a - (a AND b)"

text \<open>How an allocation path ends: by the \<^verbatim>\<open>return x\<close> of line 123, or with the object
  and its rounded size, to go on after line 184.\<close>

datatype path_result = Fast nat state | Slow nat nat state

text \<open>Lines 104 to 125: the request is served from the current combining block when,
  once aligned, it fits what is left of it.\<close>

definition tiny_fit :: "ext \<Rightarrow> nat \<Rightarrow> mcache_t \<Rightarrow> (nat \<times> mcache_t) option" where
  "tiny_fit e sz c =
     (let tinysize0 = tinysize c in
      if sz \<le> tinysize0 then
        let t0 = tiny c;
            t1 = (if sz AND 7 = 0 then roundup t0 8
                  else if sz AND 3 = 0 then roundup t0 4
                  else if sz AND 1 = 0 then roundup t0 2
                  else t0);
            size1 = sz + usub e t1 t0
        in if size1 \<le> tinysize0
           then Some (t1, c\<lparr>tiny := add_ptr t1 sz, tinysize := tinysize c - size1\<rparr>)
           else None
      else None)"

text \<open>
  Lines 127 to 136 and 156 to 165: take the head of the free list of the span cached for
  class \<open>cls\<close>, refilling the cache when the list is empty. \<^verbatim>\<open>v.next\<close> is the word at \<open>v\<close>.
\<close>

definition cache_pop :: "ext \<Rightarrow> nat \<Rightarrow> state \<Rightarrow> failure + (nat \<times> state)" where
  "cache_pop e cls st =
     (case st of (tr, mp, w) \<Rightarrow>
        let s = alloc (mcache w) cls;
            v = freelist (spans w s)
        in case (if v = 0 then
                   (case emit (OnM_mcacheRefill cls)
                           (tr, mp\<lparr>scalararg := (scalararg mp)(0 := cls)\<rparr>, w) of
                      (tr1, mp1, w1) \<Rightarrow>
                        let w2 = mcacheRefill_m e cls w1;
                            s2 = alloc (mcache w2) cls
                        in (s2, freelist (spans w2 s2), (tr1, mp1, w2)))
                 else (s, v, st)) of
             (s', v', (tr', mp', w')) \<Rightarrow>
               if v' = 0 then Inl Fault
               else
                 let sp = spans w' s';
                     sp' = sp\<lparr>freelist := load_uintptr e (mem w') v', ref := ref sp + 1\<rparr>
                 in Inr (v', (tr', mp', w'\<lparr>spans := (spans w')(s' := sp')\<rparr>)))"

text \<open>Lines 104 to 147: the tiny allocator.\<close>

definition tiny_alloc :: "ext \<Rightarrow> nat \<Rightarrow> state \<Rightarrow> failure + path_result" where
  "tiny_alloc e sz st =
     (case st of (tr, mp, w) \<Rightarrow>
        let tinysize0 = tinysize (mcache w) in
        case tiny_fit e sz (mcache w) of
          Some (x, c') \<Rightarrow>
            Inr (Fast x (tr, releasem e (mp\<lparr>mallocing := 0\<rparr>), w\<lparr>mcache := c'\<rparr>))
        | None \<Rightarrow>
            (case cache_pop e tinySizeClass st of
               Inl f \<Rightarrow> Inl f
             | Inr (x, (tr1, mp1, w1)) \<Rightarrow>
                 let m1 = store_le (store_le (mem w1) x 8 0) (x + 8) 8 0;
                     c1 = mcache w1;
                     c2 = (if maxTinySize - sz > tinysize0
                           then c1\<lparr>tiny := add_ptr x sz, tinysize := maxTinySize - sz\<rparr>
                           else c1)
                 in Inr (Slow x maxTinySize (tr1, mp1, w1\<lparr>mem := m1, mcache := c2\<rparr>))))"

text \<open>Lines 150 to 154 and 351 to 354: the class of a size.\<close>

definition sizeclass_of :: "ext \<Rightarrow> nat \<Rightarrow> failure + nat" where
  "sizeclass_of e sz =
     (if sz \<le> 1024 - 8 then idx (size_to_class8 e) (drop_bit 3 (sz + 7))
      else idx (size_to_class128 e) (drop_bit 7 (uptr e (int sz - 1024 + 127))))"

text \<open>Lines 149 to 173: allocation from the free list of the size class.\<close>

definition small_alloc :: "ext \<Rightarrow> nat \<Rightarrow> nat \<Rightarrow> state \<Rightarrow> failure + path_result" where
  "small_alloc e sz flags st =
     (case sizeclass_of e sz of
        Inl f \<Rightarrow> Inl f
      | Inr sizeclass \<Rightarrow>
          (case idx (class_to_size e) sizeclass of
             Inl f \<Rightarrow> Inl f
           | Inr size' \<Rightarrow>
               (case cache_pop e sizeclass st of
                  Inl f \<Rightarrow> Inl f
                | Inr (x, (tr1, mp1, w1)) \<Rightarrow>
                    if flags AND flagNoZero = 0 then
                      let w2 = w1\<lparr>mem := store_uintptr e (mem w1) x 0\<rparr> in
                      if size' > 2 * ptrSize e \<and> load_uintptr e (mem w2) (x + ptrSize e) \<noteq> 0
                      then (case emit (Memclr x size') (tr1, mp1, w2) of
                              (tr3, mp3, w3) \<Rightarrow>
                                Inr (Slow x size' (tr3, mp3, w3\<lparr>mem := memclr (mem w3) x size'\<rparr>)))
                      else Inr (Slow x size' (tr1, mp1, w2))
                    else Inr (Slow x size' (tr1, mp1, w1)))))"

text \<open>Lines 177 to 183: a large object is a span of its own.\<close>

definition large_alloc :: "ext \<Rightarrow> nat \<Rightarrow> nat \<Rightarrow> state \<Rightarrow> failure + path_result" where
  "large_alloc e sz flags st =
     (case st of (tr, mp, w) \<Rightarrow>
        case emit (OnM_largeAlloc sz flags)
               (tr, mp\<lparr>scalararg := (scalararg mp)(0 := sz, 1 := flags)\<rparr>, w) of
          (tr1, mp1, w1) \<Rightarrow>
            (case largeAlloc_m e sz flags w1 of
               (s, w2) \<Rightarrow>
                 if s = 0 then Inl Fault
                 else
                   let mp2 = mp1\<lparr>ptrarg := (ptrarg mp1)(0 := 0)\<rparr>;
                       x = uptr e (int (push_bit pageShift (start (spans w2 s))))
                   in Inr (Slow x (elemsize (spans w2 s)) (tr1, mp2, w2))))"

text \<open>Lines 72 to 184.\<close>

definition alloc_path :: "ext \<Rightarrow> nat \<Rightarrow> nat \<Rightarrow> state \<Rightarrow> failure + path_result" where
  "alloc_path e sz flags st =
     (if sz \<le> maxSmallSize then
        (case (if flags AND flagNoScan \<noteq> 0 \<and> sz < maxTinySize
               then tiny_alloc e sz st else small_alloc e sz flags st) of
           Inl f \<Rightarrow> Inl f
         | Inr (Fast x st') \<Rightarrow> Inr (Fast x st')
         | Inr (Slow x size' (tr, mp, w)) \<Rightarrow>
             Inr (Slow x size'
                   (tr, mp, w\<lparr>mcache := (mcache w)\<lparr>local_cachealloc :=
                                   local_cachealloc (mcache w) + int size'\<rparr>\<rparr>)))
      else large_alloc e sz flags st)"


subsection \<open>The bitmap writer\<close>

definition wordsPerBitmapWord :: "ext \<Rightarrow> nat" where
  "wordsPerBitmapWord e = ptrSize e * 8 div 4"

text \<open>The bitmap word and the shift that describe the heap word at \<open>p\<close> (lines 195 to 197,
  274 to 276 and 282 to 284).\<close>

definition bitmap_pos :: "ext \<Rightarrow> world \<Rightarrow> nat \<Rightarrow> nat \<times> nat" where
  "bitmap_pos e w p =
     (let off = usub e p (arena_start w) div ptrSize e;
          xbits = usub e (usub e (arena_start w) (off div wordsPerBitmapWord e * ptrSize e))
                    (ptrSize e);
          shift = (off mod wordsPerBitmapWord e) * gcBits
      in (xbits, shift))"

text \<open>\<^verbatim>\<open>*xbitsb = v\<close>, a store of one byte into the bitmap.\<close>

definition bitmap_store_byte :: "nat \<Rightarrow> nat \<Rightarrow> state \<Rightarrow> state" where
  "bitmap_store_byte a v st =
     (case emit (Bitmap_store a) st of
        (tr, mp, w) \<Rightarrow> (tr, mp, w\<lparr>mem := store_byte (mem w) a v\<rparr>))"

text \<open>Line 207: \<^verbatim>\<open>*xbits |= (bitsPointer << 2) << shift\<close>.\<close>

definition mark_one_word :: "ext \<Rightarrow> nat \<Rightarrow> nat \<Rightarrow> state \<Rightarrow> state" where
  "mark_one_word e xbits shift st =
     (case emit (Bitmap_store xbits) st of
        (tr, mp, w) \<Rightarrow>
          (tr, mp, w\<lparr>mem := store_uintptr e (mem w) xbits
                        (load_uintptr e (mem w) xbits OR
                           push_bit shift (push_bit 2 bitsPointer))\<rparr>))"

text \<open>
  Lines 210 to 251: the choice of the pointer mask. The result is \<open>Marked\<close> where the
  code jumps to the label \<^verbatim>\<open>marked\<close>, and otherwise the mask (\<open>0\<close> for \<^verbatim>\<open>nil\<close>) with the
  length \<^verbatim>\<open>te\<close> at which it repeats.
\<close>

datatype mask_sel = Marked state | Masked nat nat state

definition select_mask ::
  "ext \<Rightarrow> nat \<Rightarrow> nat \<Rightarrow> nat \<Rightarrow> type_t option \<Rightarrow> nat \<Rightarrow> nat \<Rightarrow> state \<Rightarrow> mask_sel"
where
  "select_mask e x sz size0 typ xbits shift st =
     (case st of (tr, mp, w) \<Rightarrow>
        case typ of
          None \<Rightarrow> Masked 0 0 st
        | Some t \<Rightarrow>
            let gc0 = load_uintptr e (mem w) (gc_at t);
                gc1 = load_uintptr e (mem w) (gc_at t + ptrSize e)
            in
            if (gc0 OR gc1) \<noteq> 0 \<and> tsize t > ptrSize e then
              (case
                 (if kind t AND kindGCProg \<noteq> 0 then
                    let nptr = (tsize t + ptrSize e - 1) div ptrSize e;
                        masksize = (if nptr mod 2 \<noteq> 0 then nptr * 2 else nptr);
                        masksize' = masksize * pointersPerByte div 8 + 1
                    in
                    if masksize' > maxGCMask \<and> gc1 \<noteq> 0 then
                      (case emit (OnM_unrollgcproginplace x (typ_addr t) sz size0)
                              (tr, mp\<lparr>ptrarg := (ptrarg mp)(0 := x, 1 := typ_addr t),
                                     scalararg := (scalararg mp)(0 := sz, 1 := size0)\<rparr>, w) of
                         (tr1, mp1, w1) \<Rightarrow>
                           Inl (tr1, mp1, unrollgcproginplace_m e x (typ_addr t) sz size0 w1))
                    else
                      Inr (gc0 + 1,
                           if load_uintptr e (mem w) gc0 AND 255 = 0 then
                             (case emit (OnM_unrollgcprog (typ_addr t))
                                     (tr, mp\<lparr>ptrarg := (ptrarg mp)(0 := typ_addr t)\<rparr>, w) of
                                (tr1, mp1, w1) \<Rightarrow> (tr1, mp1, unrollgcprog_m e (typ_addr t) w1))
                           else st)
                  else Inr (gc_at t, st)) of
                 Inl st' \<Rightarrow> Marked st'
               | Inr (ptrmask, st') \<Rightarrow>
                   if sz = 2 * ptrSize e then
                     (case st' of (tr', mp', w') \<Rightarrow>
                        Marked (bitmap_store_byte (xbits + shift div 8)
                                  (load_byte (mem w') ptrmask OR bitBoundary) st'))
                   else
                     let te = tsize t div ptrSize e
                     in Masked ptrmask (if te mod 2 = 0 then te div 2 else te) st')
            else Masked 0 0 st)"

text \<open>
  Lines 258 to 279: the loop \<^verbatim>\<open>for i := 0; i < size0; i += 2*ptrSize\<close> that copies the
  mask into the bitmap. The result is \<open>None\<close> when the loop does not end.
\<close>

partial_function (option) mask_loop ::
  "ext \<Rightarrow> nat \<Rightarrow> nat \<Rightarrow> nat \<Rightarrow> nat \<Rightarrow> nat \<Rightarrow> nat \<Rightarrow> state \<Rightarrow> state option"
where
  "mask_loop e x size0 ptrmask te i ti st =
     (if i < size0 then
        (case st of (tr, mp, w) \<Rightarrow>
           let v0 = push_bit 2 bitsPointer OR push_bit 6 bitsPointer;
               v1 = (if ptrmask \<noteq> 0 then load_byte (mem w) (ptrmask + ti) else v0);
               ti1 = (if ptrmask \<noteq> 0 then (if ti + 1 = te then 0 else ti + 1) else ti);
               v2 = (if i = 0 then v1 OR bitBoundary else v1);
               v3 = (if i + ptrSize e = size0 then and_not v2 (push_bit 4 bitPtrMask) else v2)
           in case bitmap_pos e w (x + i) of
                (xbits, shift) \<Rightarrow>
                  mask_loop e x size0 ptrmask te (i + 2 * ptrSize e) ti1
                    (bitmap_store_byte (xbits + shift div 8) v3 st))
      else Some st)"

text \<open>Lines 280 to 287: the word after the object's last word is marked dead.\<close>

definition mark_dead :: "ext \<Rightarrow> nat \<Rightarrow> nat \<Rightarrow> nat \<Rightarrow> state \<Rightarrow> state" where
  "mark_dead e x sz size0 st =
     (case st of (tr, mp, w) \<Rightarrow>
        if size0 mod (2 * ptrSize e) = 0 \<and> size0 < sz then
          (case bitmap_pos e w (x + size0) of
             (xbits, shift) \<Rightarrow>
               bitmap_store_byte (xbits + shift div 8) (push_bit 2 bitsDead) st)
        else st)"

text \<open>Lines 193 to 288: the writer, for an object at \<open>x\<close> of rounded size \<open>sz\<close> and
  requested size \<open>size0\<close>.\<close>

definition markallocated ::
  "ext \<Rightarrow> nat \<Rightarrow> nat \<Rightarrow> nat \<Rightarrow> type_t option \<Rightarrow> state \<Rightarrow> failure + state"
where
  "markallocated e x sz size0 typ st =
     (case st of (tr, mp, w) \<Rightarrow>
        case bitmap_pos e w x of
          (xbits, shift) \<Rightarrow>
            if debugMalloc \<and>
               drop_bit shift (load_uintptr e (mem w) xbits) AND (bitMask OR bitPtrMask)
                 \<noteq> bitBoundary
            then Inl (Throw ''bad bits in markallocated'')
            else if sz = ptrSize e then Inr (mark_one_word e xbits shift st)
            else
              (case select_mask e x sz size0 typ xbits shift st of
                 Marked st' \<Rightarrow> Inr st'
               | Masked ptrmask te st' \<Rightarrow>
                   if sz = 2 * ptrSize e then
                     Inr (bitmap_store_byte (xbits + shift div 8)
                            (push_bit 2 bitsPointer OR push_bit 6 bitsPointer OR bitBoundary)
                            st')
                   else
                     (case mask_loop e x size0 ptrmask te 0 0 st' of
                        None \<Rightarrow> Inl NoReturn
                      | Some st'' \<Rightarrow> Inr (mark_dead e x sz size0 st''))))"

subsection \<open>The profiling sampler\<close>

text \<open>\<^verbatim>\<open>profilealloc\<close>, lines 362 to 384.\<close>

definition profilealloc :: "ext \<Rightarrow> nat \<Rightarrow> nat \<Rightarrow> state \<Rightarrow> failure + state" where
  "profilealloc e x sz st =
     (case st of (tr, mp, w) \<Rightarrow>
        let c = mcache w;
            rate = MemProfileRate w
        in
        case (if sz < uptr e rate then
                let rate' = (if rate > 0x3fffffff then 0x3fffffff else rate);
                    d = int32 (2 * int32 rate')
                in
                if d = 0 then Inl Fault
                else
                  let next0 = go_rem (int32 (int (fastrand2 e w))) d;
                      next1 = int32 (next0 - int32 (int32 (int sz) - next_sample c));
                      next2 = (if next1 < 0 then 0 else next1)
                  in Inr (w\<lparr>mcache := c\<lparr>next_sample := next2\<rparr>\<rparr>)
              else Inr w) of
          Inl f \<Rightarrow> Inl f
        | Inr w' \<Rightarrow>
            Inr (emit (OnM_mprofMalloc sz x)
                   (tr, mp\<lparr>scalararg := (scalararg mp)(0 := sz),
                          ptrarg := (ptrarg mp)(0 := x)\<rparr>, w')))"

text \<open>Lines 299 to 305 of \<^verbatim>\<open>gomallocgc\<close>.\<close>

definition sample_alloc :: "ext \<Rightarrow> nat \<Rightarrow> nat \<Rightarrow> state \<Rightarrow> failure + state" where
  "sample_alloc e x sz st =
     (case st of (tr, mp, w) \<Rightarrow>
        let rate = MemProfileRate w in
        if rate > 0 then
          (if sz < uptr e rate \<and> int32 (int sz) < next_sample (mcache w) then
             Inr (tr, mp, w\<lparr>mcache := (mcache w)\<lparr>next_sample :=
                                int32 (next_sample (mcache w) - int32 (int sz))\<rparr>\<rparr>)
           else profilealloc e x sz st)
        else Inr st)"

subsection \<open>gomallocgc and goroundupsize\<close>

text \<open>Lines 289 to 313: from the label \<^verbatim>\<open>marked\<close> to the return.\<close>

definition after_marked ::
  "ext \<Rightarrow> nat \<Rightarrow> nat \<Rightarrow> type_t option \<Rightarrow> state \<Rightarrow> failure + (nat \<times> state)"
where
  "after_marked e x sz typ st =
     (case st of (tr, mp, w) \<Rightarrow>
        let st1 = (tr, mp\<lparr>mallocing := 0\<rparr>, w);
            st2 = (if raceenabled e then emit (Racemalloc x sz) st1 else st1);
            st3 = (if allocfreetrace w \<noteq> 0
                   then emit (Tracealloc x sz (case typ of None \<Rightarrow> 0 | Some t \<Rightarrow> typ_addr t)) st2
                   else st2)
        in
        case sample_alloc e x sz st3 of
          Inl f \<Rightarrow> Inl f
        | Inr (tr4, mp4, w4) \<Rightarrow>
            let mp5 = releasem e mp4 in
            if heap_alloc w4 \<ge> next_gc w4 then
              (case gogc e 0 (mp5, w4) of
                 None \<Rightarrow> Inl NoReturn
               | Some (gtr, mp6, w6) \<Rightarrow>
                   Inr (x, (tr4 @ map (Pair (mallocing mp5)) gtr, mp6, w6)))
            else Inr (x, (tr4, mp5, w4)))"

text \<open>\<^verbatim>\<open>gomallocgc(size, typ, flags)\<close>: the address it returns with the trace and the state
  it leaves, or the way it fails to return.\<close>

definition gomallocgc ::
  "ext \<Rightarrow> nat \<Rightarrow> type_t option \<Rightarrow> nat \<Rightarrow> m_t \<times> world \<Rightarrow> failure + (nat \<times> state)"
where
  "gomallocgc e sz typ flags s =
     (case s of (mp0, w0) \<Rightarrow>
        if sz = 0 then Inr (zeroObject e, ([], mp0, w0))
        else
          let mp = acquirem e mp0 in
          if mallocing mp \<noteq> 0 then Inl (Throw ''malloc/free - deadlock'')
          else
            let size0 = sz in
            case alloc_path e sz flags ([], mp\<lparr>mallocing := 1\<rparr>, w0) of
              Inl f \<Rightarrow> Inl f
            | Inr (Fast x st) \<Rightarrow> Inr (x, st)
            | Inr (Slow x size' st) \<Rightarrow>
                (case (if flags AND flagNoScan \<noteq> 0 then Inr st
                       else markallocated e x size' size0 typ st) of
                   Inl f \<Rightarrow> Inl f
                 | Inr st' \<Rightarrow> after_marked e x size' typ st'))"

text \<open>\<^verbatim>\<open>goroundupsize\<close>, lines 349 to 360.\<close>

definition goroundupsize :: "ext \<Rightarrow> nat \<Rightarrow> failure + nat" where
  "goroundupsize e sz =
     (if sz < maxSmallSize then
        (case sizeclass_of e sz of
           Inl f \<Rightarrow> Inl f
         | Inr sizeclass \<Rightarrow> idx (class_to_size e) sizeclass)
      else if uptr e (int sz + int pageSize) < sz then Inr sz
      else Inr (and_not (uptr e (int sz + int pageSize - 1)) pageMask))"

subsection \<open>Notions used to state the properties\<close>

text \<open>The GC percentage a call of \<^verbatim>\<open>gogc\<close> works with: the cached value, or the one
  \<^verbatim>\<open>goreadgogc\<close> supplies when the cache still holds \<^verbatim>\<open>gcpercentUnknown\<close>.\<close>

definition gcpercent_cfg :: "ext \<Rightarrow> world \<Rightarrow> int" where
  "gcpercent_cfg e w = (if gcpercent w = gcpercentUnknown e then goreadgogc e else gcpercent w)"

text \<open>The value of \<^verbatim>\<open>mp.scalararg[1]\<close> that asks \<^verbatim>\<open>gc_m\<close> for an eager sweep.\<close>

definition eager_flag :: "int \<Rightarrow> nat" where
  "eager_flag force = (if 2 \<le> force then 1 else 0)"

text \<open>The events of reading \<^verbatim>\<open>gcpercent\<close> under the heap lock.\<close>

definition lock_events :: "event set" where
  "lock_events = {Golock, Goreadgogc, Gounlock}"

text \<open>The trace of a collection, from the stop of the world on, with one \<^verbatim>\<open>gc_m\<close> per
  start time in \<open>ts\<close>.\<close>

definition collect_trace :: "ext \<Rightarrow> int \<Rightarrow> nat list \<Rightarrow> event list" where
  "collect_trace e force ts =
     [Stoptheworld, Clearpools] @ map (\<lambda>t. OnM_gc t (eager_flag force)) ts @
     [Semrelease, Starttheworld] @ (if concurrentSweep e then [] else [Gosched])"

subsection \<open>A sample instance\<close>

text \<open>
  Concrete parameters and a concrete state, to evaluate the model: a 64-bit machine,
  \<^verbatim>\<open>acquirem\<close> and \<^verbatim>\<open>releasem\<close> counting a lock up and down, a counting semaphore whose
  \<^verbatim>\<open>semacquire\<close> returns once it has taken a unit, a collection that moves the threshold
  above the live heap, and a refill that leaves the cache as it is. The class sizes are
  a short table with class \<^verbatim>\<open>tinySizeClass\<close> of size \<^verbatim>\<open>maxTinySize\<close> and a last class of
  size \<^verbatim>\<open>maxSmallSize\<close>; the two index tables map each bucket to the least class that
  holds it.
\<close>

definition sample_class_to_size :: "nat list" where
  "sample_class_to_size =
     [0, 8, 16, 32, 64, 1024, 2048, 32768]"

definition least_class :: "nat list \<Rightarrow> nat \<Rightarrow> nat" where
  "least_class cts n =
     (case find (\<lambda>c. n \<le> cts ! c) [1..<length cts] of Some c \<Rightarrow> c | None \<Rightarrow> 0)"

definition ext0 :: ext where
  "ext0 = \<lparr>ptrSize = 8, gcpercentUnknown = - 2, concurrentSweep = True, raceenabled = False,
     zeroObject = 64,
     size_to_class8 = map (\<lambda>i. least_class sample_class_to_size (8 * i)) [0..<129],
     size_to_class128 = map (\<lambda>j. least_class sample_class_to_size (1024 + 128 * j)) [0..<249],
     class_to_size = sample_class_to_size,
     acquirem_locks = (\<lambda>l. l + 1),
     releasem_locks = (\<lambda>l. l - 1),
     goreadgogc = 100,
     gonanotime = (\<lambda>w. 0),
     fastrand2 = (\<lambda>w. 12345),
     semacquire = (\<lambda>w. if worldsema w > 0 then Some (w\<lparr>worldsema := worldsema w - 1\<rparr>)
                         else None),
     semrelease = (\<lambda>w. w\<lparr>worldsema := worldsema w + 1\<rparr>),
     gc_m = (\<lambda>a b w. w\<lparr>next_gc := 2 * heap_alloc w + 1\<rparr>),
     mcacheRefill_m = (\<lambda>k w. w),
     largeAlloc_m = (\<lambda>sz fl w. (0, w)),
     unrollgcproginplace_m = (\<lambda>x t sz sz0 w. w),
     unrollgcprog_m = (\<lambda>t w. w)\<rparr>"

definition m0 :: m_t where
  "m0 = \<lparr>mallocing = 0, gcing = 0, locks = 0, scalararg = (\<lambda>_. 0), ptrarg = (\<lambda>_. 0)\<rparr>"

definition c0 :: mcache_t where
  "c0 = \<lparr>tiny = 0, tinysize = 0, alloc = (\<lambda>k. 100 + k), local_cachealloc = 0,
          next_sample = 0\<rparr>"

definition w0 :: world where
  "w0 = \<lparr>enablegc = 1, heap_alloc = 4096, next_gc = 4096, panicking = 0, gcpercent = 100,
          gctrace = 0, worldsema = 1, allocfreetrace = 0, MemProfileRate = 0,
          arena_start = 65536, mem = (\<lambda>a. 0),
          spans = (\<lambda>s. \<lparr>freelist = (if 100 < s \<and> s < 108 then 65536 + (s - 100) * 4096 else 0),
                          ref = 0, start = 0, elemsize = 0\<rparr>),
          mcache = c0\<rparr>"

text \<open>
  The next sample interval as the spec words it: a draw \<open>r\<close> reduced to \<open>[0, 2R)\<close>, less
  the remainder \<open>S - prev\<close> of the current allocation, and not below zero.
\<close>

definition spec_next_sample :: "int \<Rightarrow> int \<Rightarrow> int \<Rightarrow> int \<Rightarrow> int" where
  "spec_next_sample R S prev r = max 0 (r mod (2 * R) - (S - prev))"

text \<open>The draw of \<^verbatim>\<open>profilealloc\<close>: \<^verbatim>\<open>fastrand2()\<close> reduced by twice the rate, the rate
  being capped at \<^verbatim>\<open>0x3fffffff\<close>.\<close>

definition sample_draw :: "ext \<Rightarrow> world \<Rightarrow> int" where
  "sample_draw e w = int (fastrand2 e w) mod (2 * min (MemProfileRate w) 0x3fffffff)"

text \<open>
  \<open>sz\<close> is the least entry of the table of class sizes that is at least \<open>n\<close>.
\<close>

definition min_entry :: "nat list \<Rightarrow> nat \<Rightarrow> nat \<Rightarrow> bool" where
  "min_entry cts n sz = (sz \<in> set cts \<and> n \<le> sz \<and> (\<forall>s \<in> set cts. n \<le> s \<longrightarrow> sz \<le> s))"

text \<open>
  What the size-class tables, which the file does not declare, are taken to satisfy: the
  index tables are long enough for the indices the code computes; their entry for a
  bucket of 8 bytes (up to 1016) or of 128 bytes (above) is a class whose size is the
  least class size that holds the bucket; class sizes up to 1024 are multiples of 8,
  larger ones multiples of 128.
\<close>

definition tables_ok :: "ext \<Rightarrow> bool" where
  "tables_ok e =
     (let cts = class_to_size e in
      128 \<le> length (size_to_class8 e) \<and> 249 \<le> length (size_to_class128 e) \<and>
      (\<forall>i \<in> set [1..<128].
          size_to_class8 e ! i < length cts \<and>
          min_entry cts (8 * i) (cts ! (size_to_class8 e ! i))) \<and>
      (\<forall>j \<in> set [0..<249].
          size_to_class128 e ! j < length cts \<and>
          min_entry cts (1024 + 128 * j) (cts ! (size_to_class128 e ! j))) \<and>
      (\<forall>s \<in> set cts. (s \<le> 1024 \<longrightarrow> 8 dvd s) \<and> (1024 < s \<longrightarrow> 128 dvd s)))"

text \<open>
  The test of line 170 on the object at \<open>v\<close> of rounded size \<open>sz\<close> as it stands on the free
  list: larger than two words, with a second word that is not zero.
\<close>

definition needs_clear :: "ext \<Rightarrow> world \<Rightarrow> nat \<Rightarrow> nat \<Rightarrow> bool" where
  "needs_clear e w v sz = (2 * ptrSize e < sz \<and> load_uintptr e (mem w) (v + ptrSize e) \<noteq> 0)"

text \<open>The sample world with a second word that is not zero in the free object of the
  16-byte class.\<close>

definition w_dirty :: world where
  "w_dirty = w0\<lparr>mem := (\<lambda>a. if a = 73736 then 1 else 0)\<rparr>"

text \<open>
  The four bits of the bitmap that describe the heap word at \<open>p\<close>, read as line 198 reads
  them: boundary, mark and the two bits of the pointer class.
\<close>

definition granule :: "ext \<Rightarrow> world \<Rightarrow> nat \<Rightarrow> nat" where
  "granule e w p =
     (case bitmap_pos e w p of
        (xbits, shift) \<Rightarrow>
          drop_bit shift (load_uintptr e (mem w) xbits) AND (bitMask OR bitPtrMask))"

text \<open>The sample world with the boundary bit set in the bitmap for the free object of the
  8-byte class.\<close>

definition w_boundary :: world where
  "w_boundary = w0\<lparr>mem := (\<lambda>a. if a = 65272 then 1 else 0)\<rparr>"

section \<open>Properties\<close>

subsection \<open>gogc\<close>

lemma gc_rounds_trace:
  "\<exists>ts mp' w'. gc_rounds e force i k st (tr, mp, w) =
      (tr @ map (\<lambda>t. OnM_gc t (eager_flag force)) ts, mp', w') \<and> length ts = k"
proof (induction k arbitrary: i st tr mp w)
  case 0
  show ?case by simp
next
  case (Suc k)
  let ?st = "if i > 0 then gonanotime e w else st"
  let ?mp1 = "mp\<lparr>scalararg := (scalararg mp)(0 := uptr e ?st)\<rparr>"
  let ?mp2 = "if force \<ge> 2 then ?mp1\<lparr>scalararg := (scalararg ?mp1)(1 := 1)\<rparr>
                 else ?mp1\<lparr>scalararg := (scalararg ?mp1)(1 := 0)\<rparr>"
  have a1: "scalararg ?mp2 1 = eager_flag force" by (simp add: eager_flag_def)
  obtain ts mp' w' where
    h: "gc_rounds e force (i + 1) k ?st
          (tr @ [OnM_gc (scalararg ?mp2 0) (scalararg ?mp2 1)], ?mp2,
           gc_m e (scalararg ?mp2 0) (scalararg ?mp2 1) w) =
        ((tr @ [OnM_gc (scalararg ?mp2 0) (scalararg ?mp2 1)]) @
           map (\<lambda>t. OnM_gc t (eager_flag force)) ts, mp', w')"
      and l: "length ts = k"
    using Suc.IH by blast
  have "gc_rounds e force i (Suc k) st (tr, mp, w) =
      (tr @ map (\<lambda>t. OnM_gc t (eager_flag force)) (scalararg ?mp2 0 # ts), mp', w')"
    using h a1 by (simp add: Let_def)
  moreover have "length (scalararg ?mp2 0 # ts) = Suc k" using l by simp
  ultimately show ?case by blast
qed

lemma gogc_gate_idle:
  "force = 0 \<and> heap_alloc w < next_gc w \<Longrightarrow>
     gogc_gate e force (tr, mp, w) = (tr @ [Semrelease], mp, semrelease e w)"
  by (simp add: gogc_gate_def)

lemma gogc_gate_collects:
  assumes "\<not> (force = 0 \<and> heap_alloc w < next_gc w)"
  shows "\<exists>ts mp' w'. gogc_gate e force (tr, mp, w) = (tr @ collect_trace e force ts, mp', w')
           \<and> length ts = (if gctrace w > 1 then 2 else 1)"
proof -
  let ?n = "if gctrace w > 1 then 2 else (1::nat)"
  obtain ts mp2 w2 where
    r: "gc_rounds e force 0 ?n (gonanotime e w)
          (tr @ [Stoptheworld, Clearpools], (acquirem e mp)\<lparr>gcing := 1\<rparr>, w) =
        ((tr @ [Stoptheworld, Clearpools]) @ map (\<lambda>t. OnM_gc t (eager_flag force)) ts, mp2, w2)"
    and l: "length ts = ?n"
    using gc_rounds_trace by blast
  have "gogc_gate e force (tr, mp, w) =
     (tr @ collect_trace e force ts, releasem e (mp2\<lparr>gcing := 0\<rparr>), semrelease e w2)"
    using assms r unfolding gogc_gate_def collect_trace_def
    by (simp add: Let_def)
  then show ?thesis using l by blast
qed

lemma resolve_gcpercent_eq:
  "resolve_gcpercent e (tr, w) =
     (if gcpercent w = gcpercentUnknown e
      then (tr @ [Golock, Goreadgogc, Gounlock], w\<lparr>gcpercent := goreadgogc e\<rparr>)
      else (tr, w))"
  by (simp add: resolve_gcpercent_def)

lemma resolve_gcpercent_cfg:
  "gcpercent (snd (resolve_gcpercent e (tr, w))) = gcpercent_cfg e w"
  by (simp add: resolve_gcpercent_eq gcpercent_cfg_def)

lemma resolve_gcpercent_events:
  "set (fst (resolve_gcpercent e ([], w))) \<subseteq> lock_events"
  by (simp add: resolve_gcpercent_eq lock_events_def)

lemma gogc_entry_negative:
  assumes "gcpercent_cfg e w < 0"
  shows "\<exists>tr mp' w'. gogc_entry e (mp, w) = Inl (tr, mp', w') \<and> set tr \<subseteq> lock_events"
proof -
  obtain tr w' where r: "resolve_gcpercent e ([], w) = (tr, w')" by (cases "resolve_gcpercent e ([], w)")
  have g: "gcpercent w' < 0" using resolve_gcpercent_cfg [of e "[]" w] r assms by simp
  have t: "set tr \<subseteq> lock_events" using resolve_gcpercent_events [of e w] r by simp
  show ?thesis using r g t by (simp add: gogc_entry_def Let_def)
qed

lemma gogc_entry_passes:
  assumes "0 \<le> gcpercent_cfg e w" "enablegc w \<noteq> 0" "locks (acquirem e mp) \<le> 1" "panicking w = 0"
  shows "gogc_entry e (mp, w) =
           Inr (fst (resolve_gcpercent e ([], w)), releasem e (acquirem e mp),
                snd (resolve_gcpercent e ([], w)))"
proof -
  obtain tr w' where r: "resolve_gcpercent e ([], w) = (tr, w')" by (cases "resolve_gcpercent e ([], w)")
  have g: "\<not> gcpercent w' < 0" using resolve_gcpercent_cfg [of e "[]" w] r assms by simp
  show ?thesis using r g assms by (simp add: gogc_entry_def Let_def)
qed

lemma gogc_entry_escape:
  assumes "1 < locks (acquirem e mp) \<or> panicking w \<noteq> 0"
  shows "gogc_entry e (mp, w) =
           Inl ([], if enablegc w = 0 then mp else releasem e (acquirem e mp), w)"
  using assms by (auto simp add: gogc_entry_def Let_def)


lemma gogc_entry_events:
  assumes "gogc_entry e (mp, w) = Inl (tr, mp', w') \<or> gogc_entry e (mp, w) = Inr (tr, mp', w')"
  shows "set tr \<subseteq> lock_events"
  using assms
  by (auto simp add: gogc_entry_def Let_def resolve_gcpercent_eq lock_events_def
      split: if_splits)

text \<open>
  Claim C1 says that with a negative GC percentage an explicit forced collection still
  goes through the semaphore, stops the world and runs the collection cycle. It does
  not: with \<^verbatim>\<open>gcpercent = -1\<close>, \<^verbatim>\<open>GC()\<close> returns with an empty trace and the state it
  found.
\<close>

theorem GC_negative_gcpercent_returns:
  "gcpercent (w0\<lparr>gcpercent := - 1\<rparr>) < 0 \<and>
   GC ext0 (m0, w0\<lparr>gcpercent := - 1\<rparr>) = Some ([], m0, w0\<lparr>gcpercent := - 1\<rparr>)"
  by (simp add: GC_def gogc_def gogc_entry_def resolve_gcpercent_def ext0_def acquirem_def releasem_def m0_def w0_def)

text \<open>
  Claim C1, amended. When the GC percentage is negative, \<^verbatim>\<open>gogc\<close> returns before the
  semaphore for every value of \<^verbatim>\<open>force\<close>: its trace holds at most the read of
  \<^verbatim>\<open>gcpercent\<close> under the heap lock. A forced call (\<^verbatim>\<open>force >= 1\<close>) goes through the
  semaphore, stops the world and runs the collection cycle when the percentage is not
  negative, collection is enabled, the lock count read after \<^verbatim>\<open>acquirem\<close> is at most one,
  no panic is in progress and \<^verbatim>\<open>semacquire\<close> returns.
\<close>

theorem gogc_gcpercent_gate:
  "(gcpercent_cfg e w < 0 \<longrightarrow>
      (\<exists>tr mp' w'. gogc e force (mp, w) = Some (tr, mp', w') \<and> set tr \<subseteq> lock_events)) \<and>
   (0 \<le> gcpercent_cfg e w \<and> enablegc w \<noteq> 0 \<and> locks (acquirem e mp) \<le> 1 \<and>
    panicking w = 0 \<and> 1 \<le> force \<and>
    semacquire e (snd (resolve_gcpercent e ([], w))) \<noteq> None \<longrightarrow>
      (\<exists>pre ts mp' w'.
          gogc e force (mp, w) = Some (pre @ [Semacquire] @ collect_trace e force ts, mp', w') \<and>
          set pre \<subseteq> lock_events \<and> ts \<noteq> []))"
proof (intro conjI impI)
  assume "gcpercent_cfg e w < 0"
  then obtain tr mp' w' where "gogc_entry e (mp, w) = Inl (tr, mp', w')" "set tr \<subseteq> lock_events"
    using gogc_entry_negative by blast
  then show "\<exists>tr mp' w'. gogc e force (mp, w) = Some (tr, mp', w') \<and> set tr \<subseteq> lock_events"
    by (simp add: gogc_def)
next
  let ?r = "resolve_gcpercent e ([], w)"
  assume a: "0 \<le> gcpercent_cfg e w \<and> enablegc w \<noteq> 0 \<and> locks (acquirem e mp) \<le> 1 \<and>
    panicking w = 0 \<and> 1 \<le> force \<and> semacquire e (snd ?r) \<noteq> None"
  then obtain w1 where s: "semacquire e (snd ?r) = Some w1" by blast
  have en: "gogc_entry e (mp, w) = Inr (fst ?r, releasem e (acquirem e mp), snd ?r)"
    using a gogc_entry_passes by blast
  have "\<not> (force = 0 \<and> heap_alloc w1 < next_gc w1)" using a by simp
  then obtain ts mp' w' where
    g: "gogc_gate e force (fst ?r @ [Semacquire], releasem e (acquirem e mp), w1) =
          ((fst ?r @ [Semacquire]) @ collect_trace e force ts, mp', w')"
    and l: "length ts = (if gctrace w1 > 1 then 2 else 1)"
    using gogc_gate_collects by blast
  have "gogc e force (mp, w) = Some (fst ?r @ [Semacquire] @ collect_trace e force ts, mp', w')"
    using en s g by (simp add: gogc_def)
  moreover have "set (fst ?r) \<subseteq> lock_events" by (rule resolve_gcpercent_events)
  moreover have "ts \<noteq> []" using l by (auto split: if_splits)
  ultimately show "\<exists>pre ts mp' w'.
          gogc e force (mp, w) = Some (pre @ [Semacquire] @ collect_trace e force ts, mp', w') \<and>
          set pre \<subseteq> lock_events \<and> ts \<noteq> []" by blast
qed

text \<open>The amended claim C1 at the sample state, with \<^verbatim>\<open>gcpercent = -1\<close> and with
  \<^verbatim>\<open>gcpercent = 100\<close>, for \<^verbatim>\<open>force = 2\<close>.\<close>

theorem gogc_gcpercent_gate_witness:
  "gcpercent_cfg ext0 (w0\<lparr>gcpercent := - 1\<rparr>) < 0 \<and>
   (\<exists>tr mp' w'. gogc ext0 2 (m0, w0\<lparr>gcpercent := - 1\<rparr>) = Some (tr, mp', w') \<and>
       set tr \<subseteq> lock_events) \<and>
   0 \<le> gcpercent_cfg ext0 w0 \<and> enablegc w0 \<noteq> 0 \<and> locks (acquirem ext0 m0) \<le> 1 \<and>
   panicking w0 = 0 \<and> (1::int) \<le> 2 \<and>
   semacquire ext0 (snd (resolve_gcpercent ext0 ([], w0))) \<noteq> None \<and>
   (\<exists>pre ts mp' w'.
       gogc ext0 2 (m0, w0) = Some (pre @ [Semacquire] @ collect_trace ext0 2 ts, mp', w') \<and>
       set pre \<subseteq> lock_events \<and> ts \<noteq> [])"
proof -
  have h1: "gcpercent_cfg ext0 (w0\<lparr>gcpercent := - 1\<rparr>) < 0"
    by (simp add: gcpercent_cfg_def ext0_def w0_def)
  have h2: "0 \<le> gcpercent_cfg ext0 w0 \<and> enablegc w0 \<noteq> 0 \<and> locks (acquirem ext0 m0) \<le> 1 \<and>
     panicking w0 = 0 \<and> (1::int) \<le> 2 \<and>
     semacquire ext0 (snd (resolve_gcpercent ext0 ([], w0))) \<noteq> None"
    by (simp add: gcpercent_cfg_def resolve_gcpercent_def ext0_def acquirem_def w0_def m0_def)
  show ?thesis
    using h1 h2 gogc_gcpercent_gate [where e = ext0 and w = "w0\<lparr>gcpercent := - 1\<rparr>" and force = 2 and mp = m0]
      gogc_gcpercent_gate [where e = ext0 and w = w0 and force = 2 and mp = m0]
    by blast
qed

text \<open>
  Claim C3 says that the collector restarts all execution contexts and only then
  releases the semaphore. In the trace of \<^verbatim>\<open>gogc(2)\<close> at the sample state the release of
  \<^verbatim>\<open>worldsema\<close> comes before \<^verbatim>\<open>starttheworld\<close>.
\<close>

theorem gogc_collect_order_counterexample:
  "map_option fst (gogc ext0 2 (m0, w0)) =
     Some [Semacquire, Stoptheworld, Clearpools, OnM_gc 0 1, Semrelease, Starttheworld]"
  by (simp add: gogc_def gogc_entry_def resolve_gcpercent_def gogc_gate_def ext0_def acquirem_def releasem_def m0_def
      w0_def uptr_def Let_def)

text \<open>
  Claim C3, amended. Take any call of \<^verbatim>\<open>gogc\<close> that passes the checks before the
  semaphore (with \<open>pre\<close> the events of reading \<^verbatim>\<open>gcpercent\<close> under the heap lock, if any),
  whose \<^verbatim>\<open>semacquire\<close> returns, and that is forced or still finds the live heap at or
  above the threshold. It returns, and the calls it has made are exactly, in this order:
  \<^verbatim>\<open>semacquire\<close>, \<^verbatim>\<open>stoptheworld\<close>, \<^verbatim>\<open>clearpools\<close>, \<^verbatim>\<open>gc_m\<close> once (twice when
  \<^verbatim>\<open>debug.gctrace > 1\<close>), each time with the eager flag set iff \<^verbatim>\<open>force >= 2\<close>,
  \<^verbatim>\<open>semrelease\<close>, and only then \<^verbatim>\<open>starttheworld\<close> (followed by \<^verbatim>\<open>gosched\<close> when the sweep
  is not concurrent).
\<close>

theorem gogc_collect_order:
  assumes en: "gogc_entry e (mp, w) = Inr (pre, mp1, w1)"
    and s: "semacquire e w1 = Some w2"
    and c: "\<not> (force = 0 \<and> heap_alloc w2 < next_gc w2)"
  shows "\<exists>ts mp' w'.
           gogc e force (mp, w) =
             Some (pre @ [Semacquire] @ [Stoptheworld, Clearpools] @
                     map (\<lambda>t. OnM_gc t (if 2 \<le> force then 1 else 0)) ts @
                     [Semrelease, Starttheworld] @
                     (if concurrentSweep e then [] else [Gosched]),
                   mp', w') \<and>
           set pre \<subseteq> {Golock, Goreadgogc, Gounlock} \<and>
           length ts = (if gctrace w2 > 1 then 2 else 1)"
proof -
  obtain ts mp' w' where
    g: "gogc_gate e force (pre @ [Semacquire], mp1, w2) =
          ((pre @ [Semacquire]) @ collect_trace e force ts, mp', w')"
    and l: "length ts = (if gctrace w2 > 1 then 2 else 1)"
    using gogc_gate_collects [OF c] by blast
  have "gogc e force (mp, w) = Some (pre @ [Semacquire] @ collect_trace e force ts, mp', w')"
    using en s g by (simp add: gogc_def)
  moreover have "set pre \<subseteq> lock_events" using en gogc_entry_events by blast
  ultimately show ?thesis
    using l unfolding collect_trace_def eager_flag_def lock_events_def by blast
qed

text \<open>The amended claim C3 at the sample state, for an unforced call with
  \<^verbatim>\<open>debug.gctrace = 2\<close>: two rounds of \<^verbatim>\<open>gc_m\<close>, then the release, then the restart.\<close>

theorem gogc_collect_order_witness:
  "gogc_entry ext0 (m0, w0\<lparr>gctrace := 2\<rparr>) = Inr ([], m0, w0\<lparr>gctrace := 2\<rparr>) \<and>
   semacquire ext0 (w0\<lparr>gctrace := 2\<rparr>) = Some (w0\<lparr>gctrace := 2, worldsema := 0\<rparr>) \<and>
   \<not> ((0::int) = 0 \<and> heap_alloc (w0\<lparr>gctrace := 2, worldsema := 0\<rparr>)
                        < next_gc (w0\<lparr>gctrace := 2, worldsema := 0\<rparr>)) \<and>
   map_option fst (gogc ext0 0 (m0, w0\<lparr>gctrace := 2\<rparr>)) =
     Some [Semacquire, Stoptheworld, Clearpools, OnM_gc 0 0, OnM_gc 0 0, Semrelease,
           Starttheworld]"
proof -
  have en: "gogc_entry ext0 (m0, w0\<lparr>gctrace := 2\<rparr>) = Inr ([], m0, w0\<lparr>gctrace := 2\<rparr>)"
    by (simp add: gogc_entry_def resolve_gcpercent_def ext0_def acquirem_def releasem_def
        m0_def w0_def Let_def)
  have s: "semacquire ext0 (w0\<lparr>gctrace := 2\<rparr>) = Some (w0\<lparr>gctrace := 2, worldsema := 0\<rparr>)"
    by (simp add: ext0_def w0_def)
  have c: "\<not> ((0::int) = 0 \<and> heap_alloc (w0\<lparr>gctrace := 2, worldsema := 0\<rparr>)
                        < next_gc (w0\<lparr>gctrace := 2, worldsema := 0\<rparr>))"
    by (simp add: w0_def)
  have g: "map_option fst (gogc ext0 0 (m0, w0\<lparr>gctrace := 2\<rparr>)) =
     Some [Semacquire, Stoptheworld, Clearpools, OnM_gc 0 0, OnM_gc 0 0, Semrelease,
           Starttheworld]"
    by (simp add: gogc_def gogc_entry_def resolve_gcpercent_def gogc_gate_def ext0_def
        acquirem_def releasem_def m0_def w0_def uptr_def Let_def numeral_2_eq_2)
  obtain ts mp' w' where
    "gogc ext0 0 (m0, w0\<lparr>gctrace := 2\<rparr>) =
       Some ([] @ [Semacquire] @ [Stoptheworld, Clearpools] @
               map (\<lambda>t. OnM_gc t (if 2 \<le> (0::int) then 1 else 0)) ts @
               [Semrelease, Starttheworld] @
               (if concurrentSweep ext0 then [] else [Gosched]), mp', w')"
    "length ts = (if gctrace (w0\<lparr>gctrace := 2, worldsema := 0\<rparr>) > 1 then 2 else 1)"
    using gogc_collect_order [OF en s c] by blast
  then show ?thesis using en s c g by simp
qed

text \<open>
  Claim C10. When the lock count that \<^verbatim>\<open>gogc\<close> reads after \<^verbatim>\<open>acquirem\<close> is above one, or
  a panic is in progress, \<^verbatim>\<open>gogc\<close> returns with an empty trace (no semaphore, no stop of
  the world, no collection cycle) and leaves the world as it found it, for every value
  of \<^verbatim>\<open>force\<close>, \<^verbatim>\<open>GC()\<close> included.
\<close>

theorem gogc_escape:
  assumes "1 < locks (acquirem e mp) \<or> panicking w \<noteq> 0"
  shows "gogc e force (mp, w) =
           Some ([], if enablegc w = 0 then mp else releasem e (acquirem e mp), w) \<and>
         GC e (mp, w) =
           Some ([], if enablegc w = 0 then mp else releasem e (acquirem e mp), w)"
  using gogc_entry_escape [OF assms] by (simp add: gogc_def GC_def)

text \<open>Claim C10 at the sample state, for \<^verbatim>\<open>GC()\<close> called with a lock held and for
  \<^verbatim>\<open>GC()\<close> called during a panic.\<close>

theorem gogc_escape_witness:
  "(1 < locks (acquirem ext0 (m0\<lparr>locks := 1\<rparr>)) \<or> panicking w0 \<noteq> 0) \<and>
   GC ext0 (m0\<lparr>locks := 1\<rparr>, w0) = Some ([], m0\<lparr>locks := 1\<rparr>, w0) \<and>
   (1 < locks (acquirem ext0 m0) \<or> panicking (w0\<lparr>panicking := 1\<rparr>) \<noteq> 0) \<and>
   GC ext0 (m0, w0\<lparr>panicking := 1\<rparr>) = Some ([], m0, w0\<lparr>panicking := 1\<rparr>)"
proof -
  have h1: "1 < locks (acquirem ext0 (m0\<lparr>locks := 1\<rparr>)) \<or> panicking w0 \<noteq> 0"
    by (simp add: ext0_def acquirem_def releasem_def m0_def)
  have h2: "1 < locks (acquirem ext0 m0) \<or> panicking (w0\<lparr>panicking := 1\<rparr>) \<noteq> 0"
    by simp
  have e1: "(if enablegc w0 = 0 then m0\<lparr>locks := 1\<rparr>
             else releasem ext0 (acquirem ext0 (m0\<lparr>locks := 1\<rparr>))) = m0\<lparr>locks := 1\<rparr>"
    by (simp add: ext0_def acquirem_def releasem_def m0_def w0_def)
  have e2: "(if enablegc (w0\<lparr>panicking := 1\<rparr>) = 0 then m0
             else releasem ext0 (acquirem ext0 m0)) = m0"
    by (simp add: ext0_def acquirem_def releasem_def m0_def w0_def)
  show ?thesis
    using gogc_escape [OF h1, of 2] gogc_escape [OF h2, of 2] h1 h2 e1 e2 by simp
qed

subsection \<open>The profiling sampler\<close>

lemma int32_id: "- (2 ^ 31) \<le> x \<Longrightarrow> x < 2 ^ 31 \<Longrightarrow> int32 x = x"
  by (simp add: int32_def signed_take_bit_int_eq_self)

lemma go_rem_nonneg: "0 \<le> a \<Longrightarrow> 0 < b \<Longrightarrow> go_rem a b = a mod b"
  by (cases "a = 0") (simp_all add: go_rem_def)

lemma uptr_id: "0 \<le> x \<Longrightarrow> x < 2 ^ (8 * ptrSize e) \<Longrightarrow> uptr e x = nat x"
  by (simp add: uptr_def)

text \<open>
  Claim C8 gives the next interval as \<open>max(0, U - (S - prev))\<close> for every size \<open>S\<close> below the
  rate \<open>R\<close>. With \<open>R = 2^33\<close>, \<open>S = 2^32\<close> and a counter of \<open>0\<close>, a sample is recorded and
  the code leaves the interval at the draw, \<open>12345\<close>, where the formula gives \<open>0\<close>:
  \<^verbatim>\<open>int32(size)\<close> has dropped the size.
\<close>

theorem sample_interval_counterexample:
  "(4294967296::int) < 8589934592 \<and>
   (case sample_alloc ext0 70000 4294967296 ([], m0, w0\<lparr>MemProfileRate := 8589934592\<rparr>) of
      Inl f \<Rightarrow> False
    | Inr (tr, mp, w) \<Rightarrow>
        tr = [(0, OnM_mprofMalloc 4294967296 70000)] \<and> next_sample (mcache w) = 12345) \<and>
   spec_next_sample 8589934592 4294967296 (next_sample (mcache w0)) (int (fastrand2 ext0 w0)) = 0"
  by (simp add: sample_alloc_def profilealloc_def ext0_def w0_def c0_def uptr_def int32_def
      go_rem_def emit_def m0_def Let_def spec_next_sample_def)

text \<open>
  Claim C8, amended. For a rate \<open>R > 0\<close> and a size \<open>S < R\<close> that fits \<^verbatim>\<open>int32\<close>
  (\<open>S < 2^31\<close>), when a sample is recorded (the counter \<open>prev\<close>, not negative, is at most
  \<open>S\<close>) and \<^verbatim>\<open>fastrand2()\<close> is below \<open>2^31\<close>, the allocation calls \<^verbatim>\<open>mprofMalloc_m\<close> and
  leaves the interval at \<open>max(0, U - (S - prev))\<close>, where \<open>U\<close> is the draw reduced modulo
  \<open>2 * min(R, 0x3fffffff)\<close>, so that \<open>0 \<le> U < 2 * min(R, 0x3fffffff)\<close>.
\<close>

theorem sample_interval:
  assumes R: "0 < MemProfileRate w" "MemProfileRate w < 2 ^ (8 * ptrSize e)"
    and S: "int S < MemProfileRate w" "int S < 2 ^ 31"
    and prev: "0 \<le> next_sample (mcache w)" "next_sample (mcache w) \<le> int S"
    and draw: "fastrand2 e w < 2 ^ 31"
  shows "sample_alloc e x S (tr, mp, w) =
           Inr (tr @ [(mallocing mp, OnM_mprofMalloc S x)],
                mp\<lparr>scalararg := (scalararg mp)(0 := S), ptrarg := (ptrarg mp)(0 := x)\<rparr>,
                w\<lparr>mcache := (mcache w)\<lparr>next_sample :=
                      max 0 (sample_draw e w - (int S - next_sample (mcache w)))\<rparr>\<rparr>) \<and>
         0 \<le> sample_draw e w \<and> sample_draw e w < 2 * min (MemProfileRate w) 0x3fffffff"
proof -
  let ?R = "MemProfileRate w"
  let ?R' = "min ?R 0x3fffffff"
  let ?prev = "next_sample (mcache w)"
  let ?U = "sample_draw e w"
  have lt: "S < uptr e ?R" using R S by (simp add: uptr_id)
  have s32: "int32 (int S) = int S" using S by (simp add: int32_id)
  have r': "(if ?R > 0x3fffffff then 0x3fffffff else ?R) = ?R'" by simp
  have r'b: "0 < ?R'" "?R' \<le> 0x3fffffff" using R by simp_all
  have r32: "int32 ?R' = ?R'" using r'b by (simp add: int32_id)
  have d: "int32 (2 * int32 ?R') = 2 * ?R'" using r'b r32 by (simp add: int32_id)
  have dpos: "0 < 2 * ?R'" using r'b by simp
  have f32: "int32 (int (fastrand2 e w)) = int (fastrand2 e w)"
    using draw by (simp add: int32_id)
  have n0: "go_rem (int32 (int (fastrand2 e w))) (int32 (2 * int32 ?R')) = ?U"
    unfolding f32 d using dpos by (simp add: go_rem_nonneg sample_draw_def)
  have Ub: "0 \<le> ?U" "?U < 2 * ?R'"
    using dpos by (simp_all add: sample_draw_def)
  have rem32: "int32 (int32 (int S) - ?prev) = int S - ?prev"
    unfolding s32 using S prev by (simp add: int32_id)
  have n1: "int32 (?U - (int S - ?prev)) = ?U - (int S - ?prev)"
    using Ub r'b S prev by (simp add: int32_id)
  have clamp: "(if ?U - (int S - ?prev) < 0 then 0 else ?U - (int S - ?prev)) =
               max 0 (?U - (int S - ?prev))" by simp
  have p: "profilealloc e x S (tr, mp, w) =
           Inr (tr @ [(mallocing mp, OnM_mprofMalloc S x)],
                mp\<lparr>scalararg := (scalararg mp)(0 := S), ptrarg := (ptrarg mp)(0 := x)\<rparr>,
                w\<lparr>mcache := (mcache w)\<lparr>next_sample := max 0 (?U - (int S - ?prev))\<rparr>\<rparr>)"
    unfolding profilealloc_def
    using lt dpos by (simp add: Let_def r' d n0 [unfolded d] rem32 n1 clamp emit_def del: min_less_iff_conj)
  have "sample_alloc e x S (tr, mp, w) = profilealloc e x S (tr, mp, w)"
    using R lt prev by (simp add: sample_alloc_def s32)
  then show ?thesis using p Ub by simp
qed


text \<open>The amended claim C8 at the sample state, for a rate of 512 KiB, a size of 200 and a
  counter of 100.\<close>

theorem sample_interval_witness:
  "0 < MemProfileRate (w0\<lparr>MemProfileRate := 524288, mcache := c0\<lparr>next_sample := 100\<rparr>\<rparr>) \<and>
   fastrand2 ext0 (w0\<lparr>MemProfileRate := 524288, mcache := c0\<lparr>next_sample := 100\<rparr>\<rparr>) < 2 ^ 31 \<and>
   sample_alloc ext0 70000 200
       ([], m0, w0\<lparr>MemProfileRate := 524288, mcache := c0\<lparr>next_sample := 100\<rparr>\<rparr>) =
     Inr ([(0, OnM_mprofMalloc 200 70000)],
          m0\<lparr>scalararg := (scalararg m0)(0 := 200), ptrarg := (ptrarg m0)(0 := 70000)\<rparr>,
          w0\<lparr>MemProfileRate := 524288, mcache := c0\<lparr>next_sample := 12245\<rparr>\<rparr>)"
proof -
  let ?w = "w0\<lparr>MemProfileRate := 524288, mcache := c0\<lparr>next_sample := 100\<rparr>\<rparr>"
  have R: "0 < MemProfileRate ?w" "MemProfileRate ?w < 2 ^ (8 * ptrSize ext0)"
    by (simp_all add: ext0_def)
  have S: "int 200 < MemProfileRate ?w" "int 200 < 2 ^ 31" by simp_all
  have prev: "0 \<le> next_sample (mcache ?w)" "next_sample (mcache ?w) \<le> int 200" by simp_all
  have draw: "fastrand2 ext0 ?w < 2 ^ 31" by (simp add: ext0_def)
  have U: "sample_draw ext0 ?w = 12345" by (simp add: sample_draw_def ext0_def)
  show ?thesis
    using sample_interval [OF R S prev draw, of 70000 "[]" m0] R(1) draw
    by (simp add: U m0_def)
qed

subsection \<open>Size classes\<close>

lemma min_entry_bucket:
  assumes m: "min_entry cts b sz" and le: "n \<le> b"
    and up: "\<And>s. s \<in> set cts \<Longrightarrow> n \<le> s \<Longrightarrow> b \<le> s"
  shows "min_entry cts n sz"
  using assms unfolding min_entry_def by (meson order_trans)

lemma bucket128_le:
  assumes "1016 < (S::nat)"
  shows "S \<le> 1024 + 128 * ((S - 897) div 128)"
proof -
  have "S - 897 = 128 * ((S - 897) div 128) + (S - 897) mod 128" by simp
  moreover have "(S - 897) mod 128 < 128" by simp
  ultimately show ?thesis using assms by linarith
qed

lemma bucket128_up:
  assumes S: "1016 < (S::nat)" and s: "S \<le> s"
    and al: "(s \<le> 1024 \<longrightarrow> 8 dvd s) \<and> (1024 < s \<longrightarrow> 128 dvd s)"
  shows "1024 + 128 * ((S - 897) div 128) \<le> s"
proof (cases "s \<le> 1024")
  case True
  then obtain k where k: "s = 8 * k" using al by (auto simp: dvd_def)
  then have "s = 1024" using True S s by presburger
  then have "S - 897 < 128" using s by linarith
  then have "(S - 897) div 128 = 0" by simp
  then show ?thesis using \<open>s = 1024\<close> by simp
next
  case False
  then obtain k where k: "s = 128 * k" using al by (auto simp: dvd_def)
  then have "9 \<le> k" using False by presburger
  then obtain k' where k': "k = k' + 9" using le_Suc_ex [of 9 k] by (auto simp: add.commute)
  have "(S - 897) div 128 \<le> (s - 897) div 128" using s by (simp add: div_le_mono)
  also have "s - 897 = 128 * (k' + 1) + 127" using k k' by simp
  also have "(128 * (k' + 1) + 127) div 128 = k' + 1" by simp
  finally show ?thesis using k k' by simp
qed

lemma bucket8_up:
  assumes S: "0 < (S::nat)" "S \<le> 1016" and s: "S \<le> s" and al: "s \<le> 1024 \<longrightarrow> 8 dvd s"
  shows "8 * ((S + 7) div 8) \<le> s"
proof (cases "s \<le> 1024")
  case True
  then obtain k where k: "s = 8 * k" using al by (auto simp: dvd_def)
  have "(S + 7) div 8 \<le> (8 * k + 7) div 8" using s k by (simp add: div_le_mono)
  also have "(8 * k + 7) div 8 = k" by simp
  finally show ?thesis using k by simp
next
  case False
  have "(S + 7) div 8 \<le> 1023 div 8" using S by (intro div_le_mono) simp
  then show ?thesis using False by simp
qed


lemma size_class_small:
  assumes ok: "tables_ok e" and S: "0 < S" "S \<le> 1016"
  shows "\<exists>c sz. sizeclass_of e S = Inr c \<and> idx (class_to_size e) c = Inr sz \<and>
           min_entry (class_to_size e) S sz"
proof -
  let ?i = "(S + 7) div 8"
  let ?c = "size_to_class8 e ! ?i"
  let ?cts = "class_to_size e"
  have i: "1 \<le> ?i" "?i < 128" using S by simp_all
  then have mem: "?i \<in> set [1..<128]" by simp
  have len: "?i < length (size_to_class8 e)" using ok i unfolding tables_ok_def Let_def by linarith
  have c: "?c < length ?cts" and m: "min_entry ?cts (8 * ?i) (?cts ! ?c)"
    using ok mem unfolding tables_ok_def Let_def by blast+
  have al: "\<And>s. s \<in> set ?cts \<Longrightarrow> (s \<le> 1024 \<longrightarrow> 8 dvd s)"
    using ok unfolding tables_ok_def Let_def by blast
  have le: "S \<le> 8 * ?i" by simp
  have "min_entry ?cts S (?cts ! ?c)"
    using min_entry_bucket [OF m le] bucket8_up [OF S] al by blast
  moreover have "sizeclass_of e S = Inr ?c"
    using S len by (simp add: sizeclass_of_def idx_def drop_bit_eq_div)
  moreover have "idx ?cts ?c = Inr (?cts ! ?c)" using c by (simp add: idx_def)
  ultimately show ?thesis by blast
qed

lemma size_class_medium:
  assumes ok: "tables_ok e" and p: "2 \<le> ptrSize e" and S: "1016 < S" "S \<le> 32768"
  shows "\<exists>c sz. sizeclass_of e S = Inr c \<and> idx (class_to_size e) c = Inr sz \<and>
           min_entry (class_to_size e) S sz"
proof -
  let ?j = "(S - 897) div 128"
  let ?c = "size_to_class128 e ! ?j"
  let ?cts = "class_to_size e"
  have "(2::int) ^ 16 \<le> 2 ^ (8 * ptrSize e)" using p by (intro power_increasing) simp_all
  then have "int S - 897 < 2 ^ (8 * ptrSize e)" using S by simp
  then have u: "uptr e (int S - 897) = S - 897" using S by (simp add: uptr_def)
  have "S - 897 \<le> 31871" using S by simp
  then have "?j \<le> 31871 div 128" by (rule div_le_mono)
  then have j: "?j < 249" by simp
  then have mem: "?j \<in> set [0..<249]" by simp
  have len: "?j < length (size_to_class128 e)" using ok j unfolding tables_ok_def Let_def by linarith
  have c: "?c < length ?cts" and m: "min_entry ?cts (1024 + 128 * ?j) (?cts ! ?c)"
    using ok mem unfolding tables_ok_def Let_def by blast+
  have al: "\<And>s. s \<in> set ?cts \<Longrightarrow> (s \<le> 1024 \<longrightarrow> 8 dvd s) \<and> (1024 < s \<longrightarrow> 128 dvd s)"
    using ok unfolding tables_ok_def Let_def by blast
  have "min_entry ?cts S (?cts ! ?c)"
    using min_entry_bucket [OF m bucket128_le [OF S(1)]] bucket128_up [OF S(1)] al by blast
  moreover have "sizeclass_of e S = Inr ?c"
    using S len by (simp add: sizeclass_of_def idx_def drop_bit_eq_div u)
  moreover have "idx ?cts ?c = Inr (?cts ! ?c)" using c by (simp add: idx_def)
  ultimately show ?thesis by blast
qed

text \<open>
  Claim C5. For tables that satisfy \<open>tables_ok\<close> and every size \<open>S\<close> with
  \<open>0 < S \<le> 32 KiB\<close>, the routing of lines 150 to 155 selects a class whose size is at
  least \<open>S\<close> and is the least entry of the table of class sizes with that property;
  \<^verbatim>\<open>goroundupsize\<close> returns that size for \<open>S\<close> below 32 KiB, and it is the rounded size of
  every allocation that \<^verbatim>\<open>gomallocgc\<close> serves from the free list of a size class. The
  class and the size are functions of \<open>S\<close> and the tables alone: the same \<open>S\<close> selects the
  same class every time.
\<close>

theorem size_class_round_up:
  assumes ok: "tables_ok e" and p: "2 \<le> ptrSize e" and S: "0 < S" "S \<le> maxSmallSize"
  shows "\<exists>c sz. sizeclass_of e S = Inr c \<and> idx (class_to_size e) c = Inr sz \<and>
           min_entry (class_to_size e) S sz \<and>
           (S < maxSmallSize \<longrightarrow> goroundupsize e S = Inr sz) \<and>
           (\<forall>flags st x n st'. small_alloc e S flags st = Inr (Slow x n st') \<longrightarrow> n = sz)"
proof -
  obtain c sz where r: "sizeclass_of e S = Inr c" "idx (class_to_size e) c = Inr sz"
      "min_entry (class_to_size e) S sz"
  proof (cases "S \<le> 1016")
    case True
    then show ?thesis using size_class_small [OF ok S(1)] that by blast
  next
    case False
    then have "1016 < S" "S \<le> 32768" using S by (simp_all add: maxSmallSize_def)
    then show ?thesis using size_class_medium [OF ok p] that by blast
  qed
  have "goroundupsize e S = Inr sz" if "S < maxSmallSize"
    using that r by (simp add: goroundupsize_def)
  moreover have "n = sz" if "small_alloc e S flags st = Inr (Slow x n st')" for flags st x n st'
    using that r
    by (auto simp add: small_alloc_def Let_def split: sum.splits prod.splits if_splits)
  ultimately show ?thesis using r by blast
qed

lemma upt_1_8: "[1..<8] = [1, 2, 3, 4, 5, 6, 7::nat]"
  by code_simp

lemma least_class_eq:
  "least_class sample_class_to_size n =
    (if n \<le> 8 then 1 else if n \<le> 16 then 2 else if n \<le> 32 then 3 else if n \<le> 64 then 4
     else if n \<le> 1024 then 5 else if n \<le> 2048 then 6 else if n \<le> 32768 then 7 else 0)"
  by (simp add: least_class_def sample_class_to_size_def upt_1_8)

lemma least_class_sample:
  assumes "0 < n" "n \<le> 32768"
  shows "least_class sample_class_to_size n < length sample_class_to_size \<and>
         min_entry sample_class_to_size n
           (sample_class_to_size ! least_class sample_class_to_size n)"
  using assms unfolding least_class_eq
  by (simp add: min_entry_def sample_class_to_size_def)


lemma tables_ok_ext0: "tables_ok ext0"
proof -
  have a: "\<forall>s \<in> set sample_class_to_size. (s \<le> 1024 \<longrightarrow> 8 dvd s) \<and> (1024 < s \<longrightarrow> 128 dvd s)"
    by (simp add: sample_class_to_size_def)
  have b: "\<forall>i \<in> set [1..<128].
          map (\<lambda>i. least_class sample_class_to_size (8 * i)) [0..<129] ! i
             < length sample_class_to_size \<and>
          min_entry sample_class_to_size (8 * i)
            (sample_class_to_size ! (map (\<lambda>i. least_class sample_class_to_size (8 * i)) [0..<129] ! i))"
    using least_class_sample by simp
  have c: "\<forall>j \<in> set [0..<249].
          map (\<lambda>j. least_class sample_class_to_size (1024 + 128 * j)) [0..<249] ! j
             < length sample_class_to_size \<and>
          min_entry sample_class_to_size (1024 + 128 * j)
            (sample_class_to_size ! (map (\<lambda>j. least_class sample_class_to_size (1024 + 128 * j)) [0..<249] ! j))"
    using least_class_sample by simp
  show ?thesis
    unfolding tables_ok_def Let_def using a b c by (simp add: ext0_def)
qed


text \<open>Claim C5 at the sample tables, for a request of 100 bytes.\<close>

theorem size_class_round_up_witness:
  "tables_ok ext0 \<and> 2 \<le> ptrSize ext0 \<and> (0::nat) < 100 \<and> 100 \<le> maxSmallSize \<and>
   sizeclass_of ext0 100 = Inr 5 \<and> idx (class_to_size ext0) 5 = Inr 1024 \<and>
   min_entry (class_to_size ext0) 100 1024 \<and> goroundupsize ext0 100 = Inr 1024"
proof -
  have p: "2 \<le> ptrSize ext0" by (simp add: ext0_def)
  have S: "(0::nat) < 100" "100 \<le> maxSmallSize" by (simp_all add: maxSmallSize_def)
  have c: "sizeclass_of ext0 100 = Inr 5"
    by (simp add: sizeclass_of_def idx_def ext0_def drop_bit_eq_div least_class_eq)
  have sz: "idx (class_to_size ext0) 5 = Inr 1024"
    by (simp add: idx_def ext0_def sample_class_to_size_def)
  show ?thesis
    using size_class_round_up [OF tables_ok_ext0 p S] tables_ok_ext0 p S c sz
    by (auto simp add: maxSmallSize_def)
qed

subsection \<open>Allocation from the free list of a size class\<close>

lemma store_le_outside: "a' < a \<or> a + k \<le> a' \<Longrightarrow> store_le m a k v a' = m a'"
  by (induction k arbitrary: m a v) auto

lemma load_le_cong: "(\<And>i. i < k \<Longrightarrow> m (a + i) = m' (a + i)) \<Longrightarrow> load_le m a k = load_le m' a k"
proof (induction k arbitrary: a)
  case 0
  show ?case by simp
next
  case (Suc k)
  have "m a = m' a" using Suc.prems [of 0] by simp
  moreover have "load_le m (Suc a) k = load_le m' (Suc a) k"
    using Suc.prems [of "Suc i" for i] by (intro Suc.IH) simp
  ultimately show ?case by simp
qed

lemma load_after_store: "load_le (store_le m a k v) (a + k) k' = load_le m (a + k) k'"
  by (rule load_le_cong) (simp add: store_le_outside)

lemma memclr_inside: "p \<le> a \<Longrightarrow> a < p + n \<Longrightarrow> memclr m p n a = 0"
  by (simp add: memclr_def)

lemma memclr_outside: "a < p \<or> p + n \<le> a \<Longrightarrow> memclr m p n a = m a"
  by (auto simp add: memclr_def)

lemma cache_pop_fast:
  assumes "freelist (spans w (alloc (mcache w) c)) = v" "v \<noteq> 0"
  shows "cache_pop e c (tr, mp, w) =
           Inr (v, (tr, mp, w\<lparr>spans := (spans w)(alloc (mcache w) c :=
                      (spans w (alloc (mcache w) c))\<lparr>freelist := load_uintptr e (mem w) v,
                         ref := ref (spans w (alloc (mcache w) c)) + 1\<rparr>)\<rparr>))"
  using assms by (simp add: cache_pop_def Let_def)

lemma small_alloc_fast:
  assumes cls: "sizeclass_of e S = Inr c" "idx (class_to_size e) c = Inr sz"
    and fl: "freelist (spans w (alloc (mcache w) c)) = v" "v \<noteq> 0"
    and z: "flags AND flagNoZero = 0"
  shows "small_alloc e S flags (tr, mp, w) =
            Inr (Slow v sz
                  (if needs_clear e w v sz then tr @ [(mallocing mp, Memclr v sz)] else tr,
                   mp,
                   w\<lparr>spans := (spans w)(alloc (mcache w) c :=
                         (spans w (alloc (mcache w) c))\<lparr>freelist := load_uintptr e (mem w) v,
                            ref := ref (spans w (alloc (mcache w) c)) + 1\<rparr>),
                      mem := (if needs_clear e w v sz
                              then memclr (store_uintptr e (mem w) v 0) v sz
                              else store_uintptr e (mem w) v 0)\<rparr>))"
proof -
  let ?m2 = "store_uintptr e (mem w) v 0"
  have sec: "load_uintptr e ?m2 (v + ptrSize e) = load_uintptr e (mem w) (v + ptrSize e)"
    by (simp add: load_uintptr_def store_uintptr_def load_after_store)
  have pop: "cache_pop e c (tr, mp, w) =
           Inr (v, (tr, mp, w\<lparr>spans := (spans w)(alloc (mcache w) c :=
                      (spans w (alloc (mcache w) c))\<lparr>freelist := load_uintptr e (mem w) v,
                         ref := ref (spans w (alloc (mcache w) c)) + 1\<rparr>)\<rparr>))"
    by (rule cache_pop_fast [OF fl])
  let ?w1 = "w\<lparr>spans := (spans w)(alloc (mcache w) c :=
                      (spans w (alloc (mcache w) c))\<lparr>freelist := load_uintptr e (mem w) v,
                         ref := ref (spans w (alloc (mcache w) c)) + 1\<rparr>)\<rparr>"
  show ?thesis
  proof (cases "needs_clear e w v sz")
    case True
    have "small_alloc e S flags (tr, mp, w) =
            Inr (Slow v sz (tr @ [(mallocing mp, Memclr v sz)], mp,
                   ?w1\<lparr>mem := memclr ?m2 v sz\<rparr>))"
      using cls pop z True by (simp add: small_alloc_def Let_def emit_def sec needs_clear_def)
    then show ?thesis using True by simp
  next
    case False
    have "small_alloc e S flags (tr, mp, w) = Inr (Slow v sz (tr, mp, ?w1\<lparr>mem := ?m2\<rparr>))"
      using cls pop z False by (auto simp add: small_alloc_def Let_def sec needs_clear_def)
    then show ?thesis using False by simp
  qed
qed

text \<open>
  Claim C4, amended. On the fast path (the free list of the class is not empty), for
  every allocation that requires zeroing (\<^verbatim>\<open>flagNoZero\<close> not set), the allocation returns
  the head \<open>v\<close> of the free list with the link in its first word cleared, and calls
  \<^verbatim>\<open>memclr\<close> on the object if and only if its rounded size is larger than two machine
  words and its second word is not zero. After the call to \<^verbatim>\<open>memclr\<close> every byte of the
  object is zero; without it, memory outside the first word is as it was.
\<close>

theorem small_alloc_zeroing:
  assumes cls: "sizeclass_of e S = Inr c" "idx (class_to_size e) c = Inr sz"
    and fl: "freelist (spans w (alloc (mcache w) c)) = v" "v \<noteq> 0"
    and z: "flags AND flagNoZero = 0"
  shows "\<exists>w'. small_alloc e S flags (tr, mp, w) =
            Inr (Slow v sz
                  (if needs_clear e w v sz then tr @ [(mallocing mp, Memclr v sz)] else tr,
                   mp, w')) \<and>
          mem w' = (if needs_clear e w v sz then memclr (store_uintptr e (mem w) v 0) v sz
                    else store_uintptr e (mem w) v 0) \<and>
          (needs_clear e w v sz \<longrightarrow> (\<forall>a. v \<le> a \<and> a < v + sz \<longrightarrow> mem w' a = 0)) \<and>
          (\<not> needs_clear e w v sz \<longrightarrow>
             (\<forall>a. a < v \<or> v + ptrSize e \<le> a \<longrightarrow> mem w' a = mem w a))"
proof -
  let ?w' = "w\<lparr>spans := (spans w)(alloc (mcache w) c :=
                         (spans w (alloc (mcache w) c))\<lparr>freelist := load_uintptr e (mem w) v,
                            ref := ref (spans w (alloc (mcache w) c)) + 1\<rparr>),
                      mem := (if needs_clear e w v sz
                              then memclr (store_uintptr e (mem w) v 0) v sz
                              else store_uintptr e (mem w) v 0)\<rparr>"
  have 1: "small_alloc e S flags (tr, mp, w) =
            Inr (Slow v sz
                  (if needs_clear e w v sz then tr @ [(mallocing mp, Memclr v sz)] else tr,
                   mp, ?w'))"
    by (rule small_alloc_fast [OF assms])
  have 2: "mem ?w' = (if needs_clear e w v sz then memclr (store_uintptr e (mem w) v 0) v sz
                    else store_uintptr e (mem w) v 0)" by simp
  have 3: "mem ?w' a = 0" if "needs_clear e w v sz" "v \<le> a \<and> a < v + sz" for a
    using that by (simp add: memclr_inside)
  have 4: "mem ?w' a = mem w a" if "\<not> needs_clear e w v sz" "a < v \<or> v + ptrSize e \<le> a" for a
    using that by (simp add: store_uintptr_def store_le_outside)
  show ?thesis
    using 1 2 3 4 by blast
qed

lemma sample_class_16: "sizeclass_of ext0 16 = Inr 2" "idx (class_to_size ext0) 2 = Inr 16"
proof -
  show "sizeclass_of ext0 16 = Inr 2"
    by (simp add: sizeclass_of_def idx_def ext0_def drop_bit_eq_div least_class_eq)
  show "idx (class_to_size ext0) 2 = Inr 16"
    by (simp add: idx_def ext0_def sample_class_to_size_def)
qed

lemma sample_class_32: "sizeclass_of ext0 32 = Inr 3" "idx (class_to_size ext0) 3 = Inr 32"
proof -
  show "sizeclass_of ext0 32 = Inr 3"
    by (simp add: sizeclass_of_def idx_def ext0_def drop_bit_eq_div least_class_eq)
  show "idx (class_to_size ext0) 3 = Inr 32"
    by (simp add: idx_def ext0_def sample_class_to_size_def)
qed

lemma ptrSize_ext0: "ptrSize ext0 = 8"
  by (simp add: ext0_def)

lemma eight: "(8::nat) = Suc (Suc (Suc (Suc (Suc (Suc (Suc (Suc 0)))))))"
  by simp

lemma load_le_8: "load_le m a 8 =
   m a mod 256 + 256 * (m (Suc a) mod 256 + 256 * (m (Suc (Suc a)) mod 256 +
     256 * (m (Suc (Suc (Suc a))) mod 256 + 256 * (m (Suc (Suc (Suc (Suc a)))) mod 256 +
     256 * (m (Suc (Suc (Suc (Suc (Suc a))))) mod 256 +
     256 * (m (Suc (Suc (Suc (Suc (Suc (Suc a)))))) mod 256 +
     256 * (m (Suc (Suc (Suc (Suc (Suc (Suc (Suc a))))))) mod 256)))))))"
  by (subst eight) (simp only: load_le.simps mult_0_right add_0_right)

text \<open>
  Claim C4 says that an object larger than one machine word whose second word is not
  zero is zeroed. In the sample world the free object of the 16-byte class (two words)
  has a second word of 1; allocated with zeroing required, it is returned with no call
  to \<^verbatim>\<open>memclr\<close> and its second word still not zero.
\<close>

theorem small_alloc_two_words_counterexample:
  "ptrSize ext0 < 16 \<and> (0::nat) AND flagNoZero = 0 \<and>
   load_uintptr ext0 (mem w_dirty) (73728 + ptrSize ext0) \<noteq> 0 \<and>
   (\<exists>w'. small_alloc ext0 16 0 ([], m0, w_dirty) = Inr (Slow 73728 16 ([], m0, w')) \<and>
      load_uintptr ext0 (mem w') (73728 + ptrSize ext0) \<noteq> 0)"
proof -
  have fl: "freelist (spans w_dirty (alloc (mcache w_dirty) 2)) = 73728" "(73728::nat) \<noteq> 0"
    by (simp_all add: w_dirty_def w0_def c0_def)
  have z: "(0::nat) AND flagNoZero = 0" by simp
  have sec: "load_uintptr ext0 (mem w_dirty) (73728 + ptrSize ext0) = 1"
    by (simp add: load_uintptr_def load_le_8 ptrSize_ext0 w_dirty_def)
  have nc: "\<not> needs_clear ext0 w_dirty 73728 16"
    by (simp add: needs_clear_def ptrSize_ext0)
  have st: "load_uintptr ext0 (store_uintptr ext0 (mem w_dirty) 73728 0) (73728 + ptrSize ext0) = 1"
    using sec by (simp add: load_uintptr_def store_uintptr_def load_after_store)
  have "small_alloc ext0 16 0 ([], m0, w_dirty) =
          Inr (Slow 73728 16 ([], m0,
            w_dirty\<lparr>spans := (spans w_dirty)(alloc (mcache w_dirty) 2 :=
                         (spans w_dirty (alloc (mcache w_dirty) 2))
                           \<lparr>freelist := load_uintptr ext0 (mem w_dirty) 73728,
                            ref := ref (spans w_dirty (alloc (mcache w_dirty) 2)) + 1\<rparr>),
                      mem := store_uintptr ext0 (mem w_dirty) 73728 0\<rparr>))"
    using small_alloc_fast [OF sample_class_16 fl z, of "[]" m0] nc by simp
  then show ?thesis using sec st by (simp add: ptrSize_ext0)
qed

text \<open>The amended claim C4 at the sample world, for a 32-byte object whose second word
  is 5: \<^verbatim>\<open>memclr\<close> is called and the word is zero afterwards.\<close>

theorem small_alloc_zeroing_witness:
  "sizeclass_of ext0 32 = Inr 3 \<and> idx (class_to_size ext0) 3 = Inr 32 \<and>
   freelist (spans (w0\<lparr>mem := (\<lambda>a. if a = 77832 then 5 else 0)\<rparr>)
      (alloc (mcache (w0\<lparr>mem := (\<lambda>a. if a = 77832 then 5 else 0)\<rparr>)) 3)) = 77824 \<and>
   (77824::nat) \<noteq> 0 \<and> (0::nat) AND flagNoZero = 0 \<and>
   needs_clear ext0 (w0\<lparr>mem := (\<lambda>a. if a = 77832 then 5 else 0)\<rparr>) 77824 32 \<and>
   (\<exists>w'. small_alloc ext0 32 0 ([], m0, w0\<lparr>mem := (\<lambda>a. if a = 77832 then 5 else 0)\<rparr>) =
            Inr (Slow 77824 32 ([(0, Memclr 77824 32)], m0, w')) \<and>
          mem w' 77832 = 0)"
proof -
  let ?w = "w0\<lparr>mem := (\<lambda>a. if a = 77832 then 5 else 0)\<rparr>"
  have fl: "freelist (spans ?w (alloc (mcache ?w) 3)) = 77824" "(77824::nat) \<noteq> 0"
    by (simp_all add: w0_def c0_def)
  have z: "(0::nat) AND flagNoZero = 0" by simp
  have nc: "needs_clear ext0 ?w 77824 32"
    by (simp add: needs_clear_def load_uintptr_def load_le_8 ptrSize_ext0)
  have m: "mallocing m0 = 0" by (simp add: m0_def)
  show ?thesis
    using small_alloc_zeroing [OF sample_class_32 fl z, of "[]" m0] sample_class_32 fl z nc m
    by auto
qed

subsection \<open>The bitmap writer\<close>

lemma load_le_bound: "load_le m a k < 256 ^ k"
proof (induction k arbitrary: a)
  case 0
  show ?case by simp
next
  case (Suc k)
  have "m a mod 256 < 256" by simp
  moreover have "load_le m (Suc a) k + 1 \<le> 256 ^ k" using Suc.IH [of "Suc a"] by simp
  then have "256 * (load_le m (Suc a) k + 1) \<le> 256 * 256 ^ k" by (rule mult_le_mono2)
  ultimately show ?case by simp
qed

lemma load_store_same: "load_le (store_le m a k v) a k = v mod 256 ^ k"
proof (induction k arbitrary: m a v)
  case 0
  show ?case by simp
next
  case (Suc k)
  have h: "store_le (m(a := v mod 256)) (Suc a) k (v div 256) a = v mod 256"
    by (simp add: store_le_outside)
  have "load_le (store_le m a (Suc k) v) a (Suc k) =
        v mod 256 + 256 * ((v div 256) mod 256 ^ k)"
    using h Suc.IH [where m = "m(a := v mod 256)" and a = "Suc a" and v = "v div 256"]
    by (simp del: fun_upd_apply)
  also have "\<dots> = v mod 256 ^ Suc k"
    by (simp add: mod_mult2_eq)
  finally show ?case .
qed

lemma and_or_distrib_nat: "(x OR y) AND z = (x AND z) OR (y AND (z::nat))"
  by (rule bit_eqI) (auto simp add: bit_simps)

lemma granule_or:
  "(drop_bit s (w OR push_bit s 8)) AND 15 = ((drop_bit s w) AND 15) OR (8::nat)"
proof -
  have "drop_bit s (w OR push_bit s (8::nat)) = drop_bit s w OR 8"
    by (simp add: drop_bit_push_bit)
  then show ?thesis by (simp add: and_or_distrib_nat)
qed

lemma or_less_pow2:
  assumes "(a::nat) < 2 ^ n" "b < 2 ^ n"
  shows "a OR b < 2 ^ n"
proof -
  have "take_bit n (a OR b) = take_bit n a OR take_bit n b" by (rule take_bit_or)
  also have "\<dots> = a OR b" using assms by (simp add: take_bit_nat_eq_self)
  finally have "take_bit n (a OR b) = a OR b" .
  then show ?thesis by (simp only: take_bit_nat_eq_self_iff)
qed

lemma pow256: "(256::nat) ^ k = 2 ^ (8 * k)"
  by (simp add: power_mult)

lemma shift_bound:
  assumes "0 < ptrSize e"
  shows "snd (bitmap_pos e w p) + 4 \<le> 8 * ptrSize e"
proof -
  let ?n = "wordsPerBitmapWord e"
  have n: "?n = 2 * ptrSize e" by (simp add: wordsPerBitmapWord_def)
  let ?off = "usub e p (arena_start w) div ptrSize e"
  have "?off mod ?n < ?n" using assms n by simp
  then have "?off mod ?n + 1 \<le> 2 * ptrSize e" using n by simp
  then have "(?off mod ?n + 1) * 4 \<le> (2 * ptrSize e) * 4" by (rule mult_le_mono1)
  then show ?thesis by (simp add: bitmap_pos_def Let_def gcBits_def)
qed

lemma word_or_store:
  assumes p: "0 < ptrSize e" and s: "s + 4 \<le> 8 * ptrSize e"
  shows "load_uintptr e (store_uintptr e m a (load_uintptr e m a OR push_bit s 8)) a =
           load_uintptr e m a OR push_bit s 8"
proof -
  let ?old = "load_le m a (ptrSize e)"
  have o: "?old < 2 ^ (8 * ptrSize e)" using load_le_bound [of m a "ptrSize e"] by (simp add: pow256)
  have "push_bit s (8::nat) = 2 ^ (s + 3)" by (simp add: push_bit_eq_mult power_add)
  also have "\<dots> < 2 ^ (8 * ptrSize e)" using s by (intro power_strict_increasing) simp_all
  finally have b: "push_bit s (8::nat) < 2 ^ (8 * ptrSize e)" .
  have "?old OR push_bit s 8 < 256 ^ ptrSize e"
    using or_less_pow2 [OF o b] by (simp add: pow256)
  then show ?thesis
    by (simp add: load_uintptr_def store_uintptr_def load_store_same)
qed

text \<open>
  Claim C7. For an object of exactly one machine word the writer returns after one
  store into the bitmap word of the object, whatever layout descriptor it is given: the
  four bits that describe the object are those it found with the pointer class set to
  "pointer". When it found them at boundary-only, the boundary bit is set afterwards and
  the pointer class reads "pointer".
\<close>

theorem one_word_marked_pointer:
  assumes p: "0 < ptrSize e"
  shows "\<exists>w'. markallocated e x (ptrSize e) size0 typ (tr, mp, w) =
            Inr (tr @ [(mallocing mp, Bitmap_store (fst (bitmap_pos e w x)))], mp, w') \<and>
          granule e w' x = granule e w x OR push_bit 2 bitsPointer \<and>
          (granule e w x = bitBoundary \<longrightarrow>
             granule e w' x AND bitBoundary = bitBoundary \<and>
             drop_bit 2 (granule e w' x) = bitsPointer)"
proof -
  obtain xbits shift where pos: "bitmap_pos e w x = (xbits, shift)" by (cases "bitmap_pos e w x")
  let ?v = "load_uintptr e (mem w) xbits OR push_bit shift 8"
  let ?w' = "w\<lparr>mem := store_uintptr e (mem w) xbits ?v\<rparr>"
  have sh: "shift + 4 \<le> 8 * ptrSize e" using shift_bound [OF p, of w x] pos by simp
  have pos': "bitmap_pos e ?w' x = (xbits, shift)" using pos by (simp add: bitmap_pos_def)
  have m: "markallocated e x (ptrSize e) size0 typ (tr, mp, w) =
            Inr (tr @ [(mallocing mp, Bitmap_store xbits)], mp, ?w')"
    using pos by (simp add: markallocated_def debugMalloc_def mark_one_word_def emit_def
        bitsPointer_def)
  have ld: "load_uintptr e (mem ?w') xbits = ?v"
    using word_or_store [OF p sh] by simp
  have "granule e ?w' x = drop_bit shift ?v AND 15"
    using pos' ld by (simp add: granule_def bitMask_def bitPtrMask_def del: drop_bit_or)
  also have "\<dots> = (drop_bit shift (load_uintptr e (mem w) xbits) AND 15) OR 8"
    by (rule granule_or)
  also have "\<dots> = granule e w x OR 8"
    using pos by (simp add: granule_def bitMask_def bitPtrMask_def)
  finally have g: "granule e ?w' x = granule e w x OR 8" .
  have e8: "push_bit 2 bitsPointer = (8::nat)" by (simp add: bitsPointer_def)
  have g1: "granule e ?w' x AND bitBoundary = bitBoundary \<and>
            drop_bit 2 (granule e ?w' x) = bitsPointer"
    if "granule e w x = bitBoundary"
    unfolding g that by (simp add: bitBoundary_def bitsPointer_def)
  have f: "fst (bitmap_pos e w x) = xbits" using pos by simp
  show ?thesis
    apply (rule exI [of _ ?w'])
    unfolding f e8 using m g g1 by blast
qed


lemma sample_bitmap_pos: "bitmap_pos ext0 w_boundary 69632 = (65272, 0)"
  by (simp add: bitmap_pos_def usub_def uptr_def wordsPerBitmapWord_def gcBits_def
      ptrSize_ext0 w_boundary_def w0_def Let_def)

text \<open>Claim C7 at the sample world, for the free object of the 8-byte class and no
  layout descriptor.\<close>

theorem one_word_marked_pointer_witness:
  "0 < ptrSize ext0 \<and> granule ext0 w_boundary 69632 = bitBoundary \<and>
   (\<exists>w'. markallocated ext0 69632 (ptrSize ext0) 8 None ([], m0, w_boundary) =
            Inr ([(0, Bitmap_store 65272)], m0, w') \<and>
          granule ext0 w' 69632 = 9)"
proof -
  have p: "0 < ptrSize ext0" by (simp add: ptrSize_ext0)
  have g: "granule ext0 w_boundary 69632 = bitBoundary"
    unfolding granule_def sample_bitmap_pos
    by (simp add: load_uintptr_def ptrSize_ext0 load_le_8
        w_boundary_def bitMask_def bitPtrMask_def bitBoundary_def)
  have m: "mallocing m0 = 0" by (simp add: m0_def)
  obtain w' where
    "markallocated ext0 69632 (ptrSize ext0) 8 None ([], m0, w_boundary) =
       Inr ([] @ [(mallocing m0, Bitmap_store (fst (bitmap_pos ext0 w_boundary 69632)))], m0, w')"
    "granule ext0 w' 69632 = granule ext0 w_boundary 69632 OR push_bit 2 bitsPointer"
    using one_word_marked_pointer [OF p, of 69632 8 None "[]" m0 w_boundary] by blast
  then show ?thesis
    using p g m by (simp add: sample_bitmap_pos bitBoundary_def bitsPointer_def)
qed

end
